theory Spec2Isabelle
  imports Main
begin

section \<open>Python values\<close>

text \<open>
  The values that \<^verbatim>\<open>json.loads\<close> produces and that the adapter passes around: \<^verbatim>\<open>None\<close>,
  booleans, integers, strings, lists and dictionaries with string keys (in insertion
  order). Numbers with a fractional part are not represented.
\<close>

datatype pyval =
    PyNone
  | PyBool bool
  | PyInt int
  | PyStr string
  | PyList "pyval list"
  | PyDict "(string \<times> pyval) list"

text \<open>Truth value testing, \<^verbatim>\<open>bool(x)\<close>.\<close>

fun py_bool :: "pyval \<Rightarrow> bool" where
  "py_bool PyNone = False"
| "py_bool (PyBool b) = b"
| "py_bool (PyInt n) = (n \<noteq> 0)"
| "py_bool (PyStr t) = (t \<noteq> [])"
| "py_bool (PyList xs) = (xs \<noteq> [])"
| "py_bool (PyDict kvs) = (kvs \<noteq> [])"

text \<open>The comparison \<^verbatim>\<open>x != 0\<close>: \<^verbatim>\<open>False\<close> equals \<^verbatim>\<open>0\<close>, \<^verbatim>\<open>True\<close> equals \<^verbatim>\<open>1\<close>.\<close>

fun py_ne_zero :: "pyval \<Rightarrow> bool" where
  "py_ne_zero (PyInt n) = (n \<noteq> 0)"
| "py_ne_zero (PyBool b) = b"
| "py_ne_zero v = True"

text \<open>
  Exceptions. \<^verbatim>\<open>ResponseException\<close> is imported from \<^verbatim>\<open>amiyabot.network.httpRequests\<close>
  and its class is not embedded: the model records the positional and the keyword
  arguments it is constructed with.
\<close>

datatype py_error =
    TimeoutError
  | KeyError string
  | TypeError
  | AttributeError
  | AssertionError
  | OtherError string
  | ResponseException "pyval list" "(string \<times> pyval) list"

text \<open>A statement either completes or raises; the state reached is kept in both cases.\<close>

datatype 'a outcome = Returned 'a | Raised py_error 'a

fun state_of :: "'a outcome \<Rightarrow> 'a" where
  "state_of (Returned x) = x"
| "state_of (Raised e x) = x"

text \<open>Subscription \<^verbatim>\<open>x[key]\<close> with a string key.\<close>

fun py_subscript :: "pyval \<Rightarrow> string \<Rightarrow> py_error + pyval" where
  "py_subscript (PyDict kvs) key =
     (case map_of kvs key of None \<Rightarrow> Inl (KeyError key) | Some v \<Rightarrow> Inr v)"
| "py_subscript v key = Inl TypeError"

text \<open>The test \<^verbatim>\<open>key in x\<close> with a string key; on a string it is the substring test.\<close>

fun is_prefix :: "string \<Rightarrow> string \<Rightarrow> bool" where
  "is_prefix [] ys = True"
| "is_prefix (x # xs) [] = False"
| "is_prefix (x # xs) (y # ys) = (x = y \<and> is_prefix xs ys)"

fun is_substring :: "string \<Rightarrow> string \<Rightarrow> bool" where
  "is_substring xs [] = (xs = [])"
| "is_substring xs (y # ys) = (is_prefix xs (y # ys) \<or> is_substring xs ys)"

fun py_contains :: "string \<Rightarrow> pyval \<Rightarrow> py_error + bool" where
  "py_contains key (PyDict kvs) = Inr (key \<in> fst ` set kvs)"
| "py_contains key (PyList xs) = Inr (PyStr key \<in> set xs)"
| "py_contains key (PyStr t) = Inr (is_substring key t)"
| "py_contains key v = Inl TypeError"

section \<open>The KOOK adapter: control-plane responses\<close>

text \<open>
  \<^verbatim>\<open>KOOKBotInstance.__check_response\<close>. \<^verbatim>\<open>json.loads\<close> is a parameter: it returns the
  parsed value, or \<^verbatim>\<open>Inl r\<close> where \<^verbatim>\<open>r\<close> is the \<^verbatim>\<open>repr\<close> of the \<^verbatim>\<open>JSONDecodeError\<close>.
\<close>

definition check_response ::
  "(string \<Rightarrow> string + pyval) \<Rightarrow> string option \<Rightarrow> py_error + pyval option" where
  "check_response json_loads response_text =
     (case response_text of
        None \<Rightarrow> Inr None
      | Some text \<Rightarrow>
         (case json_loads text of
            Inl r \<Rightarrow> Inl (ResponseException [PyInt (- 1), PyStr r] [])
          | Inr data \<Rightarrow>
             (case py_contains ''code'' data of
                Inl e \<Rightarrow> Inl e
              | Inr False \<Rightarrow> Inr (Some data)
              | Inr True \<Rightarrow>
                 (case py_subscript data ''code'' of
                    Inl e \<Rightarrow> Inl e
                  | Inr c \<Rightarrow>
                     if py_ne_zero c
                     then (case data of
                             PyDict kvs \<Rightarrow> Inl (ResponseException [] kvs)
                           | _ \<Rightarrow> Inl TypeError)
                     else Inr (Some data)))))"

text \<open>
  \<^verbatim>\<open>get_request\<close> and \<^verbatim>\<open>post_request\<close> hand what the HTTP collaborator returned (the
  response body, or \<^verbatim>\<open>None\<close>) to \<^verbatim>\<open>__check_response\<close> and return its result; an
  exception raised there leaves them unchanged.
\<close>

definition get_request ::
  "(string \<Rightarrow> string + pyval) \<Rightarrow> string option \<Rightarrow> py_error + pyval option" where
  "get_request json_loads http_result = check_response json_loads http_result"

definition post_request ::
  "(string \<Rightarrow> string + pyval) \<Rightarrow> string option \<Rightarrow> py_error + pyval option" where
  "post_request json_loads http_result = check_response json_loads http_result"

section \<open>The KOOK adapter: gateway session\<close>

text \<open>
  The dataclass \<^verbatim>\<open>WSPayload\<close>, a frame of the gateway protocol.
\<close>

record WSPayload =
  payload_s :: int
  payload_d :: "(string \<times> pyval) list option"
  payload_sn :: "int option"
  payload_extra :: "(string \<times> pyval) list option"

text \<open>
  What the adapter does to its collaborators, in the order it does it: the request for a
  gateway endpoint, opening the socket, frames sent, closing the socket, the tasks it
  creates (the handler for an event, the heartbeat loop).
\<close>

datatype action =
    GatewayRequest
  | OpenSocket pyval
  | Send WSPayload
  | CloseSocket
  | Dispatch "(string \<times> pyval) list option"
  | StartHeartbeat

text \<open>
  The attributes of \<^verbatim>\<open>KOOKBotInstance\<close> that the connection code reads and writes.
  \<^verbatim>\<open>connection\<close> is \<^verbatim>\<open>True\<close> while the attribute holds a socket and \<^verbatim>\<open>False\<close> while it is
  \<^verbatim>\<open>None\<close>; \<^verbatim>\<open>effects\<close> is the trace of actions.
\<close>

record kook =
  keep_run :: bool
  connection :: bool
  ws_url :: pyval
  pong :: int
  last_sn :: int
  session :: pyval
  effects :: "action list"

text \<open>
  \<^verbatim>\<open>KOOKBotInstance.__init__\<close>. \<^verbatim>\<open>keep_run\<close> and \<^verbatim>\<open>session\<close> are attributes of the base class;
  they get the values of a running adapter that has no session yet.
\<close>

definition kook_init :: kook where
  "kook_init = \<lparr> keep_run = True, connection = False, ws_url = PyStr [], pong = 0,
                  last_sn = 0, session = PyNone, effects = [] \<rparr>"

definition still_alive :: "kook \<Rightarrow> bool" where
  "still_alive st = (keep_run st \<and> connection st)"

definition close_connection :: "kook \<Rightarrow> kook" where
  "close_connection st =
     (if connection st
      then st\<lparr> effects := effects st @ [CloseSocket], connection := False \<rparr>
      else st\<lparr> connection := False \<rparr>)"

text \<open>
  \<^verbatim>\<open>self.connection.send(...)\<close>: an attribute error when the connection is \<^verbatim>\<open>None\<close>; the
  transport itself is taken to accept the frame.
\<close>

definition send :: "kook \<Rightarrow> WSPayload \<Rightarrow> kook outcome" where
  "send st frame =
     (if connection st then Returned (st\<lparr> effects := effects st @ [Send frame] \<rparr>)
      else Raised AttributeError st)"

text \<open>\<^verbatim>\<open>payload.d[key]\<close>, where \<^verbatim>\<open>d\<close> may be \<^verbatim>\<open>None\<close>.\<close>

definition payload_item :: "WSPayload \<Rightarrow> string \<Rightarrow> py_error + pyval" where
  "payload_item p key =
     (case payload_d p of None \<Rightarrow> Inl TypeError | Some kvs \<Rightarrow> py_subscript (PyDict kvs) key)"

definition resume_frame :: "int \<Rightarrow> WSPayload" where
  "resume_frame n = \<lparr> payload_s = 4, payload_d = None, payload_sn = Some n, payload_extra = None \<rparr>"

text \<open>The branch \<^verbatim>\<open>if payload.s == 1\<close> of the receive loop.\<close>

definition on_handshake :: "kook \<Rightarrow> WSPayload \<Rightarrow> kook outcome" where
  "on_handshake st p =
     (case payload_item p ''code'' of
        Inl e \<Rightarrow> Raised e st
      | Inr c \<Rightarrow>
         if py_ne_zero c
         then Raised TimeoutError (st\<lparr> ws_url := PyStr [], last_sn := 0 \<rparr>)
         else (case (if last_sn st \<noteq> 0 then send st (resume_frame (last_sn st)) else Returned st) of
                 Raised e st1 \<Rightarrow> Raised e st1
               | Returned st1 \<Rightarrow>
                  (case payload_item p ''session_id'' of
                     Inl e \<Rightarrow> Raised e st1
                   | Inr sid \<Rightarrow>
                      Returned (st1\<lparr> session := sid, effects := effects st1 @ [StartHeartbeat] \<rparr>))))"

text \<open>
  One turn of the receive loop of \<^verbatim>\<open>__connect\<close>, from the frame received to the end of the
  loop body.
\<close>

definition handle_frame :: "kook \<Rightarrow> WSPayload \<Rightarrow> kook outcome" where
  "handle_frame st p =
     (let st1 = (case payload_sn p of None \<Rightarrow> st | Some n \<Rightarrow> st\<lparr> last_sn := n \<rparr>);
          st2 = (if payload_s p = 0
                 then st1\<lparr> effects := effects st1 @ [Dispatch (payload_d p)] \<rparr> else st1)
      in case (if payload_s p = 1 then on_handshake st2 p else Returned st2) of
           Raised e st3 \<Rightarrow> Raised e st3
         | Returned st3 \<Rightarrow>
            (let st4 = (if payload_s p = 3 then st3\<lparr> pong := 1 \<rparr> else st3);
                 st5 = (if payload_s p = 5
                        then close_connection (st4\<lparr> ws_url := PyStr [], last_sn := 0 \<rparr>)
                        else st4)
             in Returned st5))"

text \<open>
  The receive loop over the frames the socket delivers. It ends when the instance is no
  longer alive (\<^verbatim>\<open>Exited\<close>), when the body raises (\<^verbatim>\<open>Failed\<close>), or it waits in \<^verbatim>\<open>recv\<close> for a
  frame that has not come (\<^verbatim>\<open>Waiting\<close>). The number is the count of frames processed.
\<close>

datatype loop_end = Exited kook | Waiting kook | Failed py_error kook

fun end_state :: "loop_end \<Rightarrow> kook" where
  "end_state (Exited st) = st"
| "end_state (Waiting st) = st"
| "end_state (Failed e st) = st"

fun recv_loop :: "kook \<Rightarrow> WSPayload list \<Rightarrow> nat \<times> loop_end" where
  "recv_loop st [] = (0, if still_alive st then Waiting st else Exited st)"
| "recv_loop st (p # ps) =
     (if \<not> still_alive st then (0, Exited st)
      else (case handle_frame st p of
              Raised e st1 \<Rightarrow> (1, Failed e st1)
            | Returned st1 \<Rightarrow> (case recv_loop st1 ps of (n, r) \<Rightarrow> (Suc n, r))))"

text \<open>The first part of \<^verbatim>\<open>__connect\<close>: a gateway endpoint is requested when none is cached.\<close>

definition obtain_gateway ::
  "(string \<Rightarrow> string + pyval) \<Rightarrow> kook \<Rightarrow> string option \<Rightarrow> kook outcome" where
  "obtain_gateway json_loads st http_result =
     (if py_bool (ws_url st) then Returned st
      else
        (let st1 = st\<lparr> effects := effects st @ [GatewayRequest] \<rparr> in
         case get_request json_loads http_result of
           Inl e \<Rightarrow> Raised e st1
         | Inr None \<Rightarrow> Raised TimeoutError st1
         | Inr (Some resp) \<Rightarrow>
            if \<not> py_bool resp then Raised TimeoutError st1
            else (case py_subscript resp ''data'' of
                    Inl e \<Rightarrow> Raised e st1
                  | Inr dat \<Rightarrow>
                     (case py_subscript dat ''url'' of
                        Inl e \<Rightarrow> Raised e st1
                      | Inr u \<Rightarrow> Returned (st1\<lparr> ws_url := u \<rparr>)))))"

text \<open>
  How a connection attempt stands: ended by leaving the loop, ended by an exception, or
  \<^verbatim>\<open>Blocked\<close> while the loop waits for a frame.
\<close>

datatype attempt_end = Finished kook | Aborted py_error kook | Blocked kook

fun attempt_state :: "attempt_end \<Rightarrow> kook" where
  "attempt_state (Finished st) = st"
| "attempt_state (Aborted e st) = st"
| "attempt_state (Blocked st) = st"

text \<open>
  Modelled from the spec: \<^verbatim>\<open>get_websocket_connection\<close> is a method of the adapter base
  class \<^verbatim>\<open>BotAdapterProtocol\<close>, which is not embedded; following "Opens the persistent
  connection", it yields a socket for the endpoint. The rest is \<^verbatim>\<open>__connect\<close> as written:
  one connection attempt, with its \<^verbatim>\<open>finally\<close> clause.
\<close>

definition connect_attempt ::
  "(string \<Rightarrow> string + pyval) \<Rightarrow> kook \<Rightarrow> string option \<Rightarrow> WSPayload list \<Rightarrow> attempt_end" where
  "connect_attempt json_loads st http_result frames =
     (case obtain_gateway json_loads st http_result of
        Raised e st1 \<Rightarrow> Aborted e (close_connection st1)
      | Returned st1 \<Rightarrow>
         (let st2 = st1\<lparr> effects := effects st1 @ [OpenSocket (ws_url st1)], connection := True \<rparr> in
          case snd (recv_loop st2 frames) of
            Waiting st3 \<Rightarrow> Blocked st3
          | Exited st3 \<Rightarrow> Finished (close_connection st3)
          | Failed e st3 \<Rightarrow> Aborted e (close_connection st3)))"

text \<open>
  The heartbeat watchdog, \<^verbatim>\<open>wait_heartbeat\<close>. Tasks are scheduled cooperatively, so the
  shared attributes change under the watchdog only while it sleeps: \<^verbatim>\<open>during_sleep\<close> is what
  the receive loop does to them with the frames that arrive in that second (its
  \<^verbatim>\<open>finally\<close> clause included, when it ends). Each element of \<^verbatim>\<open>ticks\<close> holds the frames of
  one second; once the list is used up no frame arrives. \<^verbatim>\<open>close_connection\<close> is taken as
  one step.
\<close>

definition during_sleep :: "kook \<Rightarrow> WSPayload list \<Rightarrow> kook" where
  "during_sleep st frames =
     (case snd (recv_loop st frames) of
        Waiting st1 \<Rightarrow> st1
      | Exited st1 \<Rightarrow> close_connection st1
      | Failed e st1 \<Rightarrow> close_connection st1)"

function wait_loop :: "nat \<Rightarrow> kook \<Rightarrow> WSPayload list list \<Rightarrow> kook" where
  "wait_loop sec st ticks =
     (if pong st = 0 \<and> still_alive st
      then (let st1 = during_sleep st (case ticks of [] \<Rightarrow> [] | t # ts \<Rightarrow> t);
                st2 = (if Suc sec \<ge> 30 then close_connection st1 else st1)
            in wait_loop (Suc sec) st2 (tl ticks))
      else st)"
  by pat_completeness auto
termination
  by (relation "measure (\<lambda>(sec, st, ticks).
        if pong st = 0 \<and> still_alive st then Suc (30 - sec) else 0)")
     (auto simp: still_alive_def close_connection_def)

declare wait_loop.simps [simp del]

definition wait_heartbeat :: "kook \<Rightarrow> WSPayload list list \<Rightarrow> kook" where
  "wait_heartbeat st ticks = (wait_loop 0 st ticks)\<lparr> pong := 0 \<rparr>"

text \<open>
  The frames on which the loop sets \<^verbatim>\<open>last_sn\<close> back to 0: a reconnect request (kind 5)
  and a handshake result (kind 1) whose code differs from 0.
\<close>

definition resets_sequence :: "WSPayload \<Rightarrow> bool" where
  "resets_sequence p =
     (payload_s p = 5 \<or>
      (payload_s p = 1 \<and> (case payload_item p ''code'' of Inl e \<Rightarrow> False | Inr c \<Rightarrow> py_ne_zero c)))"

text \<open>How often the socket has been closed so far.\<close>

definition closes :: "kook \<Rightarrow> nat" where
  "closes st = count_list (effects st) CloseSocket"

section \<open>Verify\<close>

text \<open>
  \<^verbatim>\<open>class Verify\<close> of \<^verbatim>\<open>builtin/message/structure.py\<close>. An argument left out at the call is
  \<^verbatim>\<open>None\<close> here; \<^verbatim>\<open>__init__\<close> then stores the default.
\<close>

record Verify =
  result :: pyval
  weight :: pyval
  keypoint :: pyval

definition Verify_init :: "pyval \<Rightarrow> pyval option \<Rightarrow> pyval option \<Rightarrow> Verify" where
  "Verify_init res weight_arg keypoint_arg =
     \<lparr> result = res,
       weight = (case weight_arg of None \<Rightarrow> PyInt 0 | Some w \<Rightarrow> w),
       keypoint = (case keypoint_arg of None \<Rightarrow> PyNone | Some k \<Rightarrow> k) \<rparr>"

definition Verify_bool :: "Verify \<Rightarrow> bool" where
  "Verify_bool v = py_bool (result v)"

section \<open>The handler registry\<close>

text \<open>
  The event and exception handler dictionaries map a key to a list object, and the merged
  view updates such lists in place, so these lists live in a store: an address stands
  for a list object and the heap gives its elements. Handlers are values of a type \<open>'h\<close>,
  group configurations of a type \<open>'g\<close>; an exception type is named by a string.
\<close>

type_synonym addr = nat
type_synonym 'h heap = "addr \<Rightarrow> 'h list"

text \<open>
  The private collections that \<^verbatim>\<open>BotHandlerFactory.__init__\<close> creates (\<^verbatim>\<open>_prefix_keywords\<close>,
  \<^verbatim>\<open>_event_handlers\<close>, ...). A dictionary is the list of its items in insertion order.
\<close>

record ('h, 'g) collections =
  own_prefix_keywords :: "string list"
  own_event_handlers :: "(string \<times> addr) list"
  own_message_handlers :: "'h list"
  own_exception_handlers :: "(string \<times> addr) list"
  own_after_reply_handlers :: "'h list"
  own_before_reply_handlers :: "'h list"
  own_message_handler_middleware :: "'h list"
  own_group_config :: "(string \<times> 'g) list"

text \<open>
  A \<^verbatim>\<open>BotHandlerFactory\<close>: the identity of the object, its own collections and its
  \<^verbatim>\<open>plugins\<close> dictionary. Plugins are factories themselves, and the value is the object
  graph unfolded from the factory: an object that is reached along two paths (installed as
  a plugin and held by a combined factory, say) stands at both places, with the same
  identity. A method that changes an object in place changes it at every place
  (\<^verbatim>\<open>in_place\<close>).
\<close>

datatype ('h, 'g) factory =
  Factory (ident: nat) (own: "('h, 'g) collections") (plugins: "(string \<times> ('h, 'g) factory) list")

fun in_place ::
  "nat \<Rightarrow> (('h, 'g) collections \<Rightarrow> ('h, 'g) collections) \<Rightarrow> ('h, 'g) factory \<Rightarrow> ('h, 'g) factory" where
  "in_place i upd (Factory j c ps) =
     Factory j (if j = i then upd c else c) (map (\<lambda>p. (fst p, in_place i upd (snd p))) ps)"

fun idents :: "('h, 'g) factory \<Rightarrow> nat set" where
  "idents (Factory j c ps) = insert j (\<Union>p\<in>set ps. idents (snd p))"

text \<open>
  \<^verbatim>\<open>d[k] = v\<close> (a key already there keeps its place, a new one goes last), \<^verbatim>\<open>del d[k]\<close> and
  the keys of a dictionary.
\<close>

fun dict_set :: "('k \<times> 'v) list \<Rightarrow> 'k \<Rightarrow> 'v \<Rightarrow> ('k \<times> 'v) list" where
  "dict_set [] k v = [(k, v)]"
| "dict_set ((k', v') # kvs) k v = (if k' = k then (k, v) # kvs else (k', v') # dict_set kvs k v)"

definition dict_del :: "('k \<times> 'v) list \<Rightarrow> 'k \<Rightarrow> ('k \<times> 'v) list" where
  "dict_del kvs k = filter (\<lambda>kv. fst kv \<noteq> k) kvs"

definition dict_keys :: "('k \<times> 'v) list \<Rightarrow> 'k list" where
  "dict_keys kvs = map fst kvs"

text \<open>
  \<^verbatim>\<open>__get_with_plugins\<close> on an attribute that holds a list: the factory's own list followed
  by the same property of each plugin, in the order of the \<^verbatim>\<open>plugins\<close> dictionary. The result
  is a new list.
\<close>

fun list_view :: "(('h, 'g) collections \<Rightarrow> 'a list) \<Rightarrow> ('h, 'g) factory \<Rightarrow> 'a list" where
  "list_view sel (Factory i c ps) = sel c @ concat (map (\<lambda>p. list_view sel (snd p)) ps)"

text \<open>
  \<^verbatim>\<open>dict(ChainMap(*maps))\<close> of the standard library: a key is looked up in the first map
  that holds it; the keys come in the order of \<^verbatim>\<open>ChainMap.__iter__\<close> of CPython 3.9 and later
  (the last map's keys first, then the new keys of each earlier map).
\<close>

fun chainmap_get :: "('k \<times> 'v) list list \<Rightarrow> 'k \<Rightarrow> 'v option" where
  "chainmap_get [] k = None"
| "chainmap_get (m # ms) k = (case map_of m k of Some v \<Rightarrow> Some v | None \<Rightarrow> chainmap_get ms k)"

fun add_keys :: "'k list \<Rightarrow> 'k list \<Rightarrow> 'k list" where
  "add_keys d [] = d"
| "add_keys d (k # ks) = add_keys (if k \<in> set d then d else d @ [k]) ks"

definition chainmap_keys :: "('k \<times> 'v) list list \<Rightarrow> 'k list" where
  "chainmap_keys ms = foldl (\<lambda>d m. add_keys d (map fst m)) [] (rev ms)"

definition chainmap_dict :: "('k \<times> 'v) list list \<Rightarrow> ('k \<times> 'v) list" where
  "chainmap_dict ms = List.map_filter (\<lambda>k. map_option (Pair k) (chainmap_get ms k)) (chainmap_keys ms)"

text \<open>
  The loop \<^verbatim>\<open>for k in plugin_value\<close> of \<^verbatim>\<open>__get_with_plugins\<close>, on a dictionary of lists.
  \<^verbatim>\<open>value\<close> starts as the shallow copy \<^verbatim>\<open>{**self_attr}\<close>, so its values are the factory's own
  list objects. A new key is bound to the plugins' list object; for a key already there
  \<^verbatim>\<open>value[k] += plugin_value[k]\<close> extends the list object at \<^verbatim>\<open>value[k]\<close> in place.
\<close>

fun merge_plugin_value ::
  "(string \<times> addr) list \<Rightarrow> (string \<times> addr) list \<Rightarrow> 'h heap \<Rightarrow> (string \<times> addr) list \<times> 'h heap" where
  "merge_plugin_value val [] h = (val, h)"
| "merge_plugin_value val ((k, a) # rest) h =
     (case map_of val k of
        None \<Rightarrow> merge_plugin_value (val @ [(k, a)]) rest h
      | Some b \<Rightarrow> merge_plugin_value val rest (h(b := h b @ h a)))"

text \<open>
  \<^verbatim>\<open>__get_with_plugins\<close> on an attribute that holds a dictionary of lists: the plugins'
  properties are read in the order of the \<^verbatim>\<open>plugins\<close> dictionary (each read may change the
  heap), combined by \<^verbatim>\<open>ChainMap\<close>, and merged into the copy of the factory's own dictionary.
  The result is the new dictionary and the heap after the read.
\<close>

fun dict_view ::
  "(('h, 'g) collections \<Rightarrow> (string \<times> addr) list) \<Rightarrow> ('h, 'g) factory \<Rightarrow> 'h heap
     \<Rightarrow> (string \<times> addr) list \<times> 'h heap"
and plugin_views ::
  "(('h, 'g) collections \<Rightarrow> (string \<times> addr) list) \<Rightarrow> (string \<times> ('h, 'g) factory) list \<Rightarrow> 'h heap
     \<Rightarrow> (string \<times> addr) list list \<times> 'h heap" where
  "dict_view sel (Factory i c ps) h =
     (case plugin_views sel ps h of (ms, h1) \<Rightarrow> merge_plugin_value (sel c) (chainmap_dict ms) h1)"
| "plugin_views sel [] h = ([], h)"
| "plugin_views sel (p # ps) h =
     (case dict_view sel (snd p) h of
        (m, h1) \<Rightarrow> (case plugin_views sel ps h1 of (ms, h2) \<Rightarrow> (m # ms, h2)))"

text \<open>What a caller finds in a dictionary of lists: each key with the elements of its list.\<close>

definition view_content :: "'h heap \<Rightarrow> (string \<times> addr) list \<Rightarrow> (string \<times> 'h list) list" where
  "view_content h v = map (\<lambda>kv. (fst kv, h (snd kv))) v"

text \<open>
  \<^verbatim>\<open>BotHandlerFactory.__init__\<close>: a new object (its identity is the argument), every
  collection empty, no plugins.
\<close>

definition factory_init :: "nat \<Rightarrow> ('h, 'g) factory" where
  "factory_init i =
     Factory i \<lparr> own_prefix_keywords = [], own_event_handlers = [], own_message_handlers = [],
               own_exception_handlers = [], own_after_reply_handlers = [],
               own_before_reply_handlers = [], own_message_handler_middleware = [],
                 own_group_config = [] \<rparr> []"

text \<open>The merged-view properties of \<^verbatim>\<open>BotHandlerFactory\<close>.\<close>

definition prefix_keywords :: "('h, 'g) factory \<Rightarrow> string list" where
  "prefix_keywords = list_view own_prefix_keywords"

definition event_handlers :: "('h, 'g) factory \<Rightarrow> 'h heap \<Rightarrow> (string \<times> addr) list \<times> 'h heap" where
  "event_handlers = dict_view own_event_handlers"

definition message_handlers :: "('h, 'g) factory \<Rightarrow> 'h list" where
  "message_handlers = list_view own_message_handlers"

definition exception_handlers :: "('h, 'g) factory \<Rightarrow> 'h heap \<Rightarrow> (string \<times> addr) list \<times> 'h heap" where
  "exception_handlers = dict_view own_exception_handlers"

definition after_reply_handlers :: "('h, 'g) factory \<Rightarrow> 'h list" where
  "after_reply_handlers = list_view own_after_reply_handlers"

definition before_reply_handlers :: "('h, 'g) factory \<Rightarrow> 'h list" where
  "before_reply_handlers = list_view own_before_reply_handlers"

definition message_handler_middleware :: "('h, 'g) factory \<Rightarrow> 'h list" where
  "message_handler_middleware = list_view own_message_handler_middleware"

text \<open>
  The \<^verbatim>\<open>group_config\<close> property takes the dictionary branch with \<^verbatim>\<open>GroupConfig\<close> values.
  \<^verbatim>\<open>GroupConfig\<close> is imported from \<^verbatim>\<open>messageHandlerDefine\<close> and its class is not embedded: what
  \<^verbatim>\<open>+=\<close> does on two of its objects (the new value, or an exception) is the parameter
  \<^verbatim>\<open>iadd\<close>.
\<close>

fun merge_group_config ::
  "('g \<Rightarrow> 'g \<Rightarrow> py_error + 'g) \<Rightarrow> (string \<times> 'g) list \<Rightarrow> (string \<times> 'g) list
     \<Rightarrow> py_error + (string \<times> 'g) list" where
  "merge_group_config iadd val [] = Inr val"
| "merge_group_config iadd val ((k, g) # rest) =
     (case map_of val k of
        None \<Rightarrow> merge_group_config iadd (val @ [(k, g)]) rest
      | Some v \<Rightarrow>
         (case iadd v g of
            Inl e \<Rightarrow> Inl e
          | Inr v' \<Rightarrow> merge_group_config iadd (dict_set val k v') rest))"

fun group_config ::
  "('g \<Rightarrow> 'g \<Rightarrow> py_error + 'g) \<Rightarrow> ('h, 'g) factory \<Rightarrow> py_error + (string \<times> 'g) list"
and plugin_group_configs ::
  "('g \<Rightarrow> 'g \<Rightarrow> py_error + 'g) \<Rightarrow> (string \<times> ('h, 'g) factory) list
     \<Rightarrow> py_error + (string \<times> 'g) list list" where
  "group_config iadd (Factory i c ps) =
     (case plugin_group_configs iadd ps of
        Inl e \<Rightarrow> Inl e
      | Inr ms \<Rightarrow> merge_group_config iadd (own_group_config c) (chainmap_dict ms))"
| "plugin_group_configs iadd [] = Inr []"
| "plugin_group_configs iadd (p # ps) =
     (case group_config iadd (snd p) of
        Inl e \<Rightarrow> Inl e
      | Inr m \<Rightarrow> (case plugin_group_configs iadd ps of Inl e \<Rightarrow> Inl e | Inr ms \<Rightarrow> Inr (m # ms)))"

text \<open>
  \<^verbatim>\<open>set_prefix_keywords\<close>: the argument is one keyword (\<^verbatim>\<open>Inl\<close>) or a list of them (\<^verbatim>\<open>Inr\<close>).
  \<^verbatim>\<open>self._prefix_keywords += ...\<close> extends the list of the object in place:
  \<^verbatim>\<open>set_prefix_keywords me keyword\<close> is what the call on the object with the identity \<^verbatim>\<open>me\<close>
  does to a factory from which that object may be reached.
\<close>

definition add_prefix_keywords ::
  "string + string list \<Rightarrow> ('h, 'g) collections \<Rightarrow> ('h, 'g) collections" where
  "add_prefix_keywords keyword c =
     c\<lparr> own_prefix_keywords :=
          own_prefix_keywords c @ (case keyword of Inl k \<Rightarrow> [k] | Inr ks \<Rightarrow> ks) \<rparr>"

definition set_prefix_keywords ::
  "nat \<Rightarrow> string + string list \<Rightarrow> ('h, 'g) factory \<Rightarrow> ('h, 'g) factory" where
  "set_prefix_keywords me keyword f = in_place me (add_prefix_keywords keyword) f"

text \<open>
  A \<^verbatim>\<open>PluginInstance\<close>: a factory with a \<^verbatim>\<open>plugin_id\<close> (name, version and the other
  descriptive attributes are left out).
\<close>

record ('h, 'g) plugin_instance =
  plugin_id :: string
  base :: "('h, 'g) factory"

text \<open>
  The objects \<^verbatim>\<open>install_plugin\<close> and \<^verbatim>\<open>uninstall_plugin\<close> work on: the host (with all that
  is reachable from it) and the heap.
\<close>

record ('h, 'g) world =
  host :: "('h, 'g) factory"
  heap :: "'h heap"

text \<open>
  The hooks \<^verbatim>\<open>install()\<close> and \<^verbatim>\<open>uninstall()\<close> are methods that a plugin overrides, so they are
  parameters: any code that may change the plugin, the host and the heap, and may raise.
  The install hook gets the plugin, which the host does not hold yet; the uninstall hook
  is the one of the plugin stored under the identifier. \<^verbatim>\<open>install_default\<close> and
  \<^verbatim>\<open>uninstall_default\<close> are the methods of \<^verbatim>\<open>PluginInstance\<close> itself, which do nothing.
\<close>

type_synonym ('h, 'g) install_hook =
  "('h, 'g) plugin_instance \<Rightarrow> ('h, 'g) world \<Rightarrow> (('h, 'g) plugin_instance \<times> ('h, 'g) world) outcome"

type_synonym ('h, 'g) uninstall_hook =
  "string \<Rightarrow> ('h, 'g) world \<Rightarrow> ('h, 'g) world outcome"

definition install_default :: "('h, 'g) install_hook" where
  "install_default inst w = Returned (inst, w)"

definition uninstall_default :: "('h, 'g) uninstall_hook" where
  "uninstall_default pid w = Returned w"

text \<open>
  \<^verbatim>\<open>BotInstance.install_plugin\<close> for a \<^verbatim>\<open>PluginInstance\<close> argument (loading a plugin from a
  path is left out). The result is what the body of the \<^verbatim>\<open>with log.sync_catch(...)\<close> block
  does: it completes, or it raises (the context manager of the logger then
  receives the exception). \<^verbatim>\<open>instance.set_prefix_keywords(self.prefix_keywords)\<close> changes the
  plugin object itself: the plugin handed over, and the same object wherever the host
  reaches it already.
\<close>

definition install_plugin ::
  "('h, 'g) install_hook \<Rightarrow> ('h, 'g) plugin_instance \<Rightarrow> ('h, 'g) world \<Rightarrow> ('h, 'g) world outcome" where
  "install_plugin install inst w =
     (let pid = plugin_id inst in
      if pid \<in> set (dict_keys (plugins (host w))) then Raised AssertionError w
      else
        (let me = ident (base inst);
             keyword = Inr (prefix_keywords (host w))
         in case install (inst\<lparr> base := set_prefix_keywords me keyword (base inst) \<rparr>)
                         (w\<lparr> host := set_prefix_keywords me keyword (host w) \<rparr>) of
              Raised e r \<Rightarrow> Raised e (snd r)
            | Returned r \<Rightarrow>
               Returned ((snd r)\<lparr> host := Factory (ident (host (snd r))) (own (host (snd r)))
                                     (dict_set (plugins (host (snd r))) pid (base (fst r))) \<rparr>)))"

text \<open>\<^verbatim>\<open>BotInstance.uninstall_plugin\<close>.\<close>

definition uninstall_plugin ::
  "('h, 'g) uninstall_hook \<Rightarrow> string \<Rightarrow> ('h, 'g) world \<Rightarrow> ('h, 'g) world outcome" where
  "uninstall_plugin uninstall pid w =
     (if \<not> (pid \<noteq> ''__factory__'' \<and> pid \<in> set (dict_keys (plugins (host w))))
      then Raised AssertionError w
      else
        (case uninstall pid w of
           Raised e w1 \<Rightarrow> Raised e w1
         | Returned w1 \<Rightarrow>
            if pid \<in> set (dict_keys (plugins (host w1)))
            then Returned (w1\<lparr> host := Factory (ident (host w1)) (own (host w1))
                                    (dict_del (plugins (host w1)) pid) \<rparr>)
            else Raised (KeyError pid) w1))"

text \<open>\<^verbatim>\<open>BotInstance.combine_factory\<close>.\<close>

definition combine_factory :: "('h, 'g) factory \<Rightarrow> ('h, 'g) factory \<Rightarrow> ('h, 'g) factory" where
  "combine_factory f other =
     Factory (ident f) (own f) (dict_set (plugins f) ''__factory__'' other)"

text \<open>
  The list objects of a dictionary attribute that are reachable from a factory, and those
  of both handler dictionaries.
\<close>

fun addrs :: "(('h, 'g) collections \<Rightarrow> (string \<times> addr) list) \<Rightarrow> ('h, 'g) factory \<Rightarrow> addr set" where
  "addrs sel (Factory i c ps) = snd ` set (sel c) \<union> (\<Union>p\<in>set ps. addrs sel (snd p))"

text \<open>Reading a dictionary property in a world: the content the caller gets.\<close>

definition dict_content ::
  "(('h, 'g) collections \<Rightarrow> (string \<times> addr) list) \<Rightarrow> ('h, 'g) world \<Rightarrow> (string \<times> 'h list) list" where
  "dict_content sel w =
     (let r = dict_view sel (host w) (heap w) in view_content (snd r) (fst r))"

definition host_addrs :: "('h, 'g) factory \<Rightarrow> addr set" where
  "host_addrs f = addrs own_event_handlers f \<union> addrs own_exception_handlers f"

section \<open>Properties\<close>

text \<open>
  C10. The boolean value of a \<^verbatim>\<open>Verify\<close> object is \<^verbatim>\<open>bool(result)\<close>, whatever weight and
  keypoint are; a weight left out is 0 and a keypoint left out is \<^verbatim>\<open>None\<close>.
\<close>

theorem Verify_bool_is_bool_result:
  "Verify_bool (Verify_init res w k) = py_bool res
   \<and> weight (Verify_init res None k) = PyInt 0
   \<and> keypoint (Verify_init res w None) = PyNone
   \<and> result (Verify_init res w k) = res"
  by (simp add: Verify_bool_def Verify_init_def)

lemma in_keys_iff: "k \<in> fst ` set kvs \<longleftrightarrow> map_of kvs k \<noteq> None"
  by (simp add: map_of_eq_None_iff)

text \<open>
  C9 (amended). \<^verbatim>\<open>None\<close> gives \<^verbatim>\<open>None\<close>; a body that is not valid JSON raises a
  \<^verbatim>\<open>ResponseException\<close> with code -1; a JSON object whose \<^verbatim>\<open>code\<close> field differs from 0 raises
  a \<^verbatim>\<open>ResponseException\<close> built from the fields of the object (its code and message), which
  \<^verbatim>\<open>get_request\<close> and \<^verbatim>\<open>post_request\<close> pass on to their caller after the one request;
  any other JSON object is returned.
\<close>

theorem check_response_on_objects:
  "check_response L None = Inr None
   \<and> (L t = Inl r \<longrightarrow>
        check_response L (Some t) = Inl (ResponseException [PyInt (- 1), PyStr r] []))
   \<and> (L t = Inr (PyDict kvs) \<and> map_of kvs ''code'' = Some c \<and> py_ne_zero c \<longrightarrow>
        check_response L (Some t) = Inl (ResponseException [] kvs)
        \<and> get_request L (Some t) = Inl (ResponseException [] kvs)
        \<and> post_request L (Some t) = Inl (ResponseException [] kvs))
   \<and> (L t = Inr (PyDict kvs) \<and> (map_of kvs ''code'' = None \<or> (map_of kvs ''code'' = Some c \<and> \<not> py_ne_zero c)) \<longrightarrow>
        check_response L (Some t) = Inr (Some (PyDict kvs)))"
  by (auto simp: check_response_def get_request_def post_request_def in_keys_iff
         split: bool.splits sum.splits option.splits)

text \<open>The three cases of C9 on a body that does not parse, an error object and \<^verbatim>\<open>{}\<close>.\<close>

theorem check_response_on_objects_witness:
  "check_response (\<lambda>t. if t = ''{}'' then Inr (PyDict []) else if t = ''x'' then Inl ''JSONDecodeError''
        else Inr (PyDict [(''code'', PyInt 401), (''message'', PyStr ''no'')])) (Some ''x'')
     = Inl (ResponseException [PyInt (- 1), PyStr ''JSONDecodeError''] [])
   \<and> get_request (\<lambda>t. if t = ''{}'' then Inr (PyDict []) else if t = ''x'' then Inl ''JSONDecodeError''
        else Inr (PyDict [(''code'', PyInt 401), (''message'', PyStr ''no'')])) (Some ''y'')
     = Inl (ResponseException [] [(''code'', PyInt 401), (''message'', PyStr ''no'')])
   \<and> check_response (\<lambda>t. if t = ''{}'' then Inr (PyDict []) else if t = ''x'' then Inl ''JSONDecodeError''
        else Inr (PyDict [(''code'', PyInt 401), (''message'', PyStr ''no'')])) (Some ''{}'')
     = Inr (Some (PyDict []))"
  using check_response_on_objects [of _ "''x''" "''JSONDecodeError''"]
        check_response_on_objects [of _ "''y''" _ "[(''code'', PyInt 401), (''message'', PyStr ''no'')]" "PyInt 401"]
        check_response_on_objects [of _ "''{}''" _ "[]"]
  by simp

text \<open>
  C9 as stated fails on a body that is valid JSON and not an object: for \<^verbatim>\<open>5\<close> the test
  \<^verbatim>\<open>'code' in data\<close> raises a type error, and the parsed value is not returned.
\<close>

theorem check_response_number_counterexample:
  "check_response (\<lambda>t. Inr (PyInt 5)) (Some ''5'') = Inl TypeError
   \<and> check_response (\<lambda>t. Inr (PyInt 5)) (Some ''5'') \<noteq> Inr (Some (PyInt 5))"
  by (simp add: check_response_def)

lemma handle_frame_last_sn:
  "\<not> resets_sequence p \<Longrightarrow>
   last_sn (state_of (handle_frame st p)) = (case payload_sn p of None \<Rightarrow> last_sn st | Some n \<Rightarrow> n)"
  by (auto simp: resets_sequence_def handle_frame_def on_handshake_def send_def Let_def
           split: option.splits sum.splits)

lemma map_filter_append: "List.map_filter f (xs @ ys) = List.map_filter f xs @ List.map_filter f ys"
  by (simp add: List.map_filter_def)

lemma last_sn_step:
  "last (n0 # (case x of None \<Rightarrow> rest | Some y \<Rightarrow> y # rest)) = last ((case x of None \<Rightarrow> n0 | Some y \<Rightarrow> y) # rest)"
  by (cases x) auto

lemma recv_loop_last_sn:
  "recv_loop st ps = (length ps, e) \<Longrightarrow> \<forall>p\<in>set ps. \<not> resets_sequence p \<Longrightarrow>
   last_sn (end_state e) = last (last_sn st # List.map_filter payload_sn ps)"
proof (induction ps arbitrary: st e)
  case Nil
  then show ?case by (auto split: if_splits)
next
  case (Cons p ps)
  from Cons.prems(1) have alive: "still_alive st" by (auto split: if_splits)
  have np: "\<not> resets_sequence p" using Cons.prems(2) by simp
  show ?case
  proof (cases "handle_frame st p")
    case (Returned st1)
    with Cons.prems(1) alive have "recv_loop st1 ps = (length ps, e)"
      by (auto split: prod.splits)
    then have "last_sn (end_state e) = last (last_sn st1 # List.map_filter payload_sn ps)"
      using Cons.IH Cons.prems(2) by simp
    moreover have "last_sn st1 = (case payload_sn p of None \<Rightarrow> last_sn st | Some n \<Rightarrow> n)"
      using handle_frame_last_sn [OF np, of st] Returned by simp
    ultimately show ?thesis
      by (simp add: last_sn_step del: last.simps)
  next
    case (Raised err st1)
    with Cons.prems(1) alive have "ps = []" "e = Failed err st1" by auto
    moreover have "last_sn st1 = (case payload_sn p of None \<Rightarrow> last_sn st | Some n \<Rightarrow> n)"
      using handle_frame_last_sn [OF np, of st] Raised by simp
    ultimately show ?thesis
      by (simp split: option.splits)
  qed
qed

lemma recv_loop_take:
  "recv_loop st ps = (length ps, e) \<Longrightarrow> \<exists>e'. recv_loop st (take k ps) = (length (take k ps), e')"
proof (induction ps arbitrary: st e k)
  case Nil
  then show ?case by simp
next
  case (Cons p ps)
  from Cons.prems(1) have alive: "still_alive st" by (auto split: if_splits)
  show ?case
  proof (cases k)
    case 0
    then show ?thesis by simp
  next
    case (Suc k')
    show ?thesis
    proof (cases "handle_frame st p")
      case (Returned st1)
      with Cons.prems(1) alive have "recv_loop st1 ps = (length ps, e)"
        by (auto split: prod.splits)
      from Cons.IH [OF this, of k'] obtain e' where "recv_loop st1 (take k' ps) = (length (take k' ps), e')"
        by blast
      with Returned alive Suc show ?thesis by simp
    next
      case (Raised err st1)
      with Cons.prems(1) alive have "ps = []" by auto
      with Raised alive Suc show ?thesis by simp
    qed
  qed
qed

lemma sorted_last_prefix:
  "sorted (xs @ ys) \<Longrightarrow> xs \<noteq> [] \<Longrightarrow> last xs \<le> last (xs @ (ys :: int list))"
  by (cases "ys = []") (auto simp: sorted_append)

text \<open>
  C1 (amended). When the loop has processed every frame of a sequence, none of them a
  reconnect request or a rejected handshake, \<^verbatim>\<open>last_sn\<close> is the \<^verbatim>\<open>sn\<close> of the last frame that
  carried one (and is unchanged when none did); and when the sequence numbers delivered
  do not decrease, starting from the \<^verbatim>\<open>last_sn\<close> of the start, \<^verbatim>\<open>last_sn\<close> does not decrease
  from any point of the session to a later one. A reconnect request or a rejected
  handshake leaves \<^verbatim>\<open>last_sn\<close> at 0.
\<close>

theorem last_sn_tracks_frames:
  assumes all: "recv_loop st ps = (length ps, e)"
    and nores: "\<forall>p\<in>set ps. \<not> resets_sequence p"
  shows "last_sn (end_state e) = last (last_sn st # List.map_filter payload_sn ps)
    \<and> (sorted (last_sn st # List.map_filter payload_sn ps) \<longrightarrow>
         (\<forall>j k. j \<le> k \<longrightarrow>
            last_sn (end_state (snd (recv_loop st (take j ps))))
              \<le> last_sn (end_state (snd (recv_loop st (take k ps))))))
    \<and> (\<forall>q st'. resets_sequence q \<longrightarrow> last_sn (state_of (handle_frame st' q)) = 0)"
proof (intro conjI impI allI)
  fix q st'
  assume "resets_sequence q"
  then show "last_sn (state_of (handle_frame st' q)) = 0"
    by (auto simp: resets_sequence_def handle_frame_def on_handshake_def close_connection_def
          split: sum.splits option.splits)
next
  show "last_sn (end_state e) = last (last_sn st # List.map_filter payload_sn ps)"
    using recv_loop_last_sn [OF all nores] .
next
  fix j k :: nat
  assume srt: "sorted (last_sn st # List.map_filter payload_sn ps)" and jk: "j \<le> k"
  have at: "last_sn (end_state (snd (recv_loop st (take i ps))))
      = last (last_sn st # List.map_filter payload_sn (take i ps))" for i
  proof -
    obtain e' where "recv_loop st (take i ps) = (length (take i ps), e')"
      using recv_loop_take [OF all] by blast
    moreover have "\<forall>p\<in>set (take i ps). \<not> resets_sequence p"
      using nores by (meson in_set_takeD)
    ultimately show ?thesis
      using recv_loop_last_sn by fastforce
  qed
  have tk: "take k ps = take j ps @ drop j (take k ps)"
    using jk by (metis append_take_drop_id min.absorb1 take_take)
  have "sorted ((last_sn st # List.map_filter payload_sn (take k ps)) @ List.map_filter payload_sn (drop k ps))"
    using srt by (metis append_Cons append_take_drop_id map_filter_append)
  then have "sorted (last_sn st # List.map_filter payload_sn (take k ps))"
    using sorted_append by blast
  then have "sorted ((last_sn st # List.map_filter payload_sn (take j ps))
      @ List.map_filter payload_sn (drop j (take k ps)))"
    by (metis tk append_Cons map_filter_append)
  from sorted_last_prefix [OF this]
  have "last (last_sn st # List.map_filter payload_sn (take j ps))
      \<le> last (last_sn st # List.map_filter payload_sn (take k ps))"
    by (metis tk append_Cons map_filter_append list.distinct(1))
  then show "last_sn (end_state (snd (recv_loop st (take j ps))))
      \<le> last_sn (end_state (snd (recv_loop st (take k ps))))"
    by (simp only: at)
qed

text \<open>C1 on three frames with the sequence numbers 3, none, 7.\<close>

theorem last_sn_tracks_frames_witness:
  "last_sn (end_state (snd (recv_loop (kook_init\<lparr> connection := True \<rparr>)
      [\<lparr> payload_s = 0, payload_d = None, payload_sn = Some 3, payload_extra = None \<rparr>,
       \<lparr> payload_s = 3, payload_d = None, payload_sn = None, payload_extra = None \<rparr>,
       \<lparr> payload_s = 0, payload_d = None, payload_sn = Some 7, payload_extra = None \<rparr>]))) = 7
   \<and> last_sn (end_state (snd (recv_loop (kook_init\<lparr> connection := True \<rparr>)
      (take 1 [\<lparr> payload_s = 0, payload_d = None, payload_sn = Some 3, payload_extra = None \<rparr>,
       \<lparr> payload_s = 3, payload_d = None, payload_sn = None, payload_extra = None \<rparr>,
       \<lparr> payload_s = 0, payload_d = None, payload_sn = Some 7, payload_extra = None \<rparr>]))))
     \<le> last_sn (end_state (snd (recv_loop (kook_init\<lparr> connection := True \<rparr>)
      (take 3 [\<lparr> payload_s = 0, payload_d = None, payload_sn = Some 3, payload_extra = None \<rparr>,
       \<lparr> payload_s = 3, payload_d = None, payload_sn = None, payload_extra = None \<rparr>,
       \<lparr> payload_s = 0, payload_d = None, payload_sn = Some 7, payload_extra = None \<rparr>]))))"
proof -
  let ?st = "kook_init\<lparr> connection := True \<rparr>"
  let ?ps = "[\<lparr> payload_s = 0, payload_d = None, payload_sn = Some 3, payload_extra = None \<rparr>,
       \<lparr> payload_s = 3, payload_d = None, payload_sn = None, payload_extra = None \<rparr>,
       \<lparr> payload_s = 0, payload_d = None, payload_sn = Some 7, payload_extra = None \<rparr>]"
  let ?e = "Waiting (kook_init\<lparr> connection := True, pong := 1, last_sn := 7,
       effects := [Dispatch None, Dispatch None] \<rparr>)"
  have run: "recv_loop ?st ?ps = (length ?ps, ?e)"
    by (simp add: kook_init_def still_alive_def handle_frame_def)
  have ok: "\<forall>p\<in>set ?ps. \<not> resets_sequence p"
    by (simp add: resets_sequence_def)
  have srt: "sorted (last_sn ?st # List.map_filter payload_sn ?ps)"
    by (simp add: kook_init_def)
  note main = last_sn_tracks_frames [OF run ok]
  have mono: "last_sn (end_state (snd (recv_loop ?st (take 1 ?ps))))
          \<le> last_sn (end_state (snd (recv_loop ?st (take 3 ?ps))))"
    using main [THEN conjunct2, THEN conjunct1, THEN mp, OF srt, THEN spec, THEN spec, THEN mp, of 1 3]
    by simp
  have "last_sn (end_state (snd (recv_loop ?st ?ps))) = 7"
    using main [THEN conjunct1] run by simp
  from this mono show ?thesis by (rule conjI)
qed

text \<open>
  C1 as stated fails: the loop stores whatever \<^verbatim>\<open>sn\<close> a frame carries, so after the frames
  5 and 3 \<^verbatim>\<open>last_sn\<close> has gone from 5 to 3; and a reconnect request that carries \<^verbatim>\<open>sn\<close> 9
  leaves \<^verbatim>\<open>last_sn\<close> at 0.
\<close>

theorem last_sn_decreases_counterexample:
  "last_sn (end_state (snd (recv_loop (kook_init\<lparr> connection := True \<rparr>)
      [\<lparr> payload_s = 0, payload_d = None, payload_sn = Some 5, payload_extra = None \<rparr>]))) = 5
   \<and> last_sn (end_state (snd (recv_loop (kook_init\<lparr> connection := True \<rparr>)
      [\<lparr> payload_s = 0, payload_d = None, payload_sn = Some 5, payload_extra = None \<rparr>,
       \<lparr> payload_s = 0, payload_d = None, payload_sn = Some 3, payload_extra = None \<rparr>]))) = 3
   \<and> recv_loop (kook_init\<lparr> connection := True \<rparr>)
      [\<lparr> payload_s = 0, payload_d = None, payload_sn = Some 5, payload_extra = None \<rparr>,
       \<lparr> payload_s = 5, payload_d = None, payload_sn = Some 9, payload_extra = None \<rparr>]
     = (2, Exited (kook_init\<lparr> effects := [Dispatch None, CloseSocket], last_sn := 0 \<rparr>))"
  by (simp add: kook_init_def still_alive_def handle_frame_def close_connection_def)

lemma obtain_gateway_requests:
  "\<not> py_bool (ws_url st) \<Longrightarrow>
   \<exists>more. effects (state_of (obtain_gateway L st h)) = effects st @ GatewayRequest # more"
  by (auto simp: obtain_gateway_def Let_def split: sum.splits option.splits)

lemma handle_frame_effects: "\<exists>more. effects (state_of (handle_frame st p)) = effects st @ more"
  by (auto simp: handle_frame_def on_handshake_def send_def close_connection_def Let_def
        split: sum.splits option.splits)

lemma recv_loop_effects: "\<exists>more. effects (end_state (snd (recv_loop st ps))) = effects st @ more"
proof (induction ps arbitrary: st)
  case Nil
  then show ?case by simp
next
  case (Cons p ps)
  show ?case
  proof (cases "still_alive st")
    case False
    then show ?thesis by simp
  next
    case True
    obtain m1 where m1: "effects (state_of (handle_frame st p)) = effects st @ m1"
      using handle_frame_effects by blast
    show ?thesis
    proof (cases "handle_frame st p")
      case (Returned st1)
      obtain m2 where "effects (end_state (snd (recv_loop st1 ps))) = effects st1 @ m2"
        using Cons.IH by blast
      with Returned m1 True show ?thesis by (auto split: prod.splits)
    next
      case (Raised e st1)
      with m1 True show ?thesis by auto
    qed
  qed
qed

lemma close_connection_effects: "\<exists>more. effects (close_connection st) = effects st @ more"
  by (simp add: close_connection_def)

lemma connect_attempt_requests:
  assumes "\<not> py_bool (ws_url st)"
  shows "\<exists>more. effects (attempt_state (connect_attempt L st h fs)) = effects st @ GatewayRequest # more"
proof -
  obtain m0 where m0: "effects (state_of (obtain_gateway L st h)) = effects st @ GatewayRequest # m0"
    using obtain_gateway_requests [OF assms] by blast
  show ?thesis
  proof (cases "obtain_gateway L st h")
    case (Raised e st1)
    then show ?thesis using m0 close_connection_effects [of st1]
      by (auto simp: connect_attempt_def)
  next
    case (Returned st1)
    let ?st2 = "st1\<lparr> effects := effects st1 @ [OpenSocket (ws_url st1)], connection := True \<rparr>"
    obtain m2 where m2: "effects (end_state (snd (recv_loop ?st2 fs))) = effects ?st2 @ m2"
      using recv_loop_effects by blast
    obtain m3 where m3: "effects (close_connection (end_state (snd (recv_loop ?st2 fs))))
        = effects (end_state (snd (recv_loop ?st2 fs))) @ m3"
      using close_connection_effects by blast
    show ?thesis
      using Returned m0 m2 m3
      by (cases "snd (recv_loop ?st2 fs)") (auto simp: connect_attempt_def Let_def)
  qed
qed

text \<open>
  C2 (amended). A handshake result (kind 1) whose code differs from 0 raises
  \<^verbatim>\<open>TimeoutError\<close> with the cached endpoint emptied and \<^verbatim>\<open>last_sn\<close> at 0; the loop ends on it
  and the attempt is aborted with the connection closed. From a state with that endpoint
  any next attempt starts by requesting a gateway endpoint. With that \<^verbatim>\<open>last_sn\<close>, a
  handshake result that carries no \<^verbatim>\<open>sn\<close>, or the \<^verbatim>\<open>sn\<close> 0, sends no resume frame: at most
  the heartbeat is started.
\<close>

theorem handshake_reject_forces_fresh_session:
  assumes s1: "payload_s p = 1"
    and code: "payload_item p ''code'' = Inr c"
    and nz: "py_ne_zero c"
  shows "\<exists>st1. handle_frame st p = Raised TimeoutError st1
      \<and> ws_url st1 = PyStr [] \<and> last_sn st1 = 0
      \<and> (still_alive st \<longrightarrow> recv_loop st (p # rest) = (1, Failed TimeoutError st1))
      \<and> (\<forall>L st0 h sg. obtain_gateway L st0 h = Returned sg \<and> keep_run sg \<longrightarrow>
            (\<exists>st3. connect_attempt L st0 h (p # rest) = Aborted TimeoutError st3
                \<and> ws_url st3 = PyStr [] \<and> last_sn st3 = 0 \<and> \<not> connection st3))
      \<and> (\<forall>L st2 h fs. ws_url st2 = ws_url st1 \<longrightarrow>
            (\<exists>more. effects (attempt_state (connect_attempt L st2 h fs))
                      = effects st2 @ GatewayRequest # more))
      \<and> (\<forall>st2 q. last_sn st2 = last_sn st1 \<and> payload_s q = 1
              \<and> (payload_sn q = None \<or> payload_sn q = Some 0) \<longrightarrow>
            effects (state_of (handle_frame st2 q)) = effects st2
            \<or> effects (state_of (handle_frame st2 q)) = effects st2 @ [StartHeartbeat])"
proof -
  let ?st1 = "(case payload_sn p of None \<Rightarrow> st | Some n \<Rightarrow> st\<lparr> last_sn := n \<rparr>)\<lparr> ws_url := PyStr [], last_sn := 0 \<rparr>"
  have hf: "handle_frame st' p = Raised TimeoutError
     ((case payload_sn p of None \<Rightarrow> st' | Some n \<Rightarrow> st'\<lparr> last_sn := n \<rparr>)\<lparr> ws_url := PyStr [], last_sn := 0 \<rparr>)" for st'
    using s1 code nz
    by (auto simp: handle_frame_def on_handshake_def payload_item_def split: option.splits)
  have a: "still_alive st \<longrightarrow> recv_loop st (p # rest) = (1, Failed TimeoutError ?st1)"
    by (simp add: hf)
  have b: "\<forall>L st0 h sg. obtain_gateway L st0 h = Returned sg \<and> keep_run sg \<longrightarrow>
            (\<exists>st3. connect_attempt L st0 h (p # rest) = Aborted TimeoutError st3
                \<and> ws_url st3 = PyStr [] \<and> last_sn st3 = 0 \<and> \<not> connection st3)"
    by (auto simp: connect_attempt_def Let_def hf still_alive_def close_connection_def
          split: option.splits)
  have c: "\<forall>L st2 h fs. ws_url st2 = ws_url ?st1 \<longrightarrow>
            (\<exists>more. effects (attempt_state (connect_attempt L st2 h fs))
                      = effects st2 @ GatewayRequest # more)"
    using connect_attempt_requests by simp
  have d: "\<forall>st2 q. last_sn st2 = last_sn ?st1 \<and> payload_s q = 1
              \<and> (payload_sn q = None \<or> payload_sn q = Some 0) \<longrightarrow>
            effects (state_of (handle_frame st2 q)) = effects st2
            \<or> effects (state_of (handle_frame st2 q)) = effects st2 @ [StartHeartbeat]"
    by (auto simp: handle_frame_def on_handshake_def Let_def split: sum.splits)
  show ?thesis
    using hf [of st] a b c d by (intro exI [of _ ?st1]) simp
qed

text \<open>C2 on a session rejected with code 40103, and the handshake that follows.\<close>

theorem handshake_reject_forces_fresh_session_witness:
  "handle_frame (kook_init\<lparr> connection := True, ws_url := PyStr ''wss://gw'', last_sn := 12 \<rparr>)
      \<lparr> payload_s = 1, payload_d = Some [(''code'', PyInt 40103)], payload_sn = None, payload_extra = None \<rparr>
     = Raised TimeoutError (kook_init\<lparr> connection := True \<rparr>)
   \<and> recv_loop (kook_init\<lparr> connection := True, ws_url := PyStr ''wss://gw'', last_sn := 12 \<rparr>)
      [\<lparr> payload_s = 1, payload_d = Some [(''code'', PyInt 40103)], payload_sn = None, payload_extra = None \<rparr>]
     = (1, Failed TimeoutError (kook_init\<lparr> connection := True \<rparr>))
   \<and> effects (state_of (handle_frame (kook_init\<lparr> connection := True \<rparr>)
      \<lparr> payload_s = 1, payload_d = Some [(''code'', PyInt 0), (''session_id'', PyStr ''abc'')],
        payload_sn = None, payload_extra = None \<rparr>)) = [StartHeartbeat]"
proof -
  let ?S = "kook_init\<lparr> connection := True, ws_url := PyStr ''wss://gw'', last_sn := 12 \<rparr>"
  let ?P = "\<lparr> payload_s = 1, payload_d = Some [(''code'', PyInt 40103)], payload_sn = None,
      payload_extra = None \<rparr>"
  let ?Q = "\<lparr> payload_s = 1, payload_d = Some [(''code'', PyInt 0), (''session_id'', PyStr ''abc'')],
        payload_sn = None, payload_extra = None \<rparr>"
  have s1: "payload_s ?P = 1" by simp
  have code: "payload_item ?P ''code'' = Inr (PyInt 40103)" by (simp add: payload_item_def)
  have nz: "py_ne_zero (PyInt 40103)" by simp
  from handshake_reject_forces_fresh_session [OF s1 code nz, of ?S "[]"]
  obtain st1 where h: "handle_frame ?S ?P = Raised TimeoutError st1"
    and r: "still_alive ?S \<longrightarrow> recv_loop ?S [?P] = (1, Failed TimeoutError st1)"
    and d: "\<forall>st2 q. last_sn st2 = last_sn st1 \<and> payload_s q = 1
              \<and> (payload_sn q = None \<or> payload_sn q = Some 0) \<longrightarrow>
            effects (state_of (handle_frame st2 q)) = effects st2
            \<or> effects (state_of (handle_frame st2 q)) = effects st2 @ [StartHeartbeat]"
    by (elim exE conjE) auto
  have ev: "handle_frame ?S ?P = Raised TimeoutError (kook_init\<lparr> connection := True \<rparr>)"
    by (simp add: handle_frame_def on_handshake_def payload_item_def kook_init_def)
  from h ev have st1: "st1 = kook_init\<lparr> connection := True \<rparr>" by simp
  have alive: "still_alive ?S" by (simp add: still_alive_def kook_init_def)
  have "effects (state_of (handle_frame (kook_init\<lparr> connection := True \<rparr>) ?Q))
          = effects (kook_init\<lparr> connection := True \<rparr>)
        \<or> effects (state_of (handle_frame (kook_init\<lparr> connection := True \<rparr>) ?Q))
          = effects (kook_init\<lparr> connection := True \<rparr>) @ [StartHeartbeat]"
    using d [THEN spec, THEN spec, of "kook_init\<lparr> connection := True \<rparr>" ?Q] st1 by simp
  moreover have "effects (state_of (handle_frame (kook_init\<lparr> connection := True \<rparr>) ?Q))
          \<noteq> effects (kook_init\<lparr> connection := True \<rparr>)"
    by (simp add: handle_frame_def on_handshake_def payload_item_def kook_init_def)
  ultimately have q: "effects (state_of (handle_frame (kook_init\<lparr> connection := True \<rparr>) ?Q)) = [StartHeartbeat]"
    by (simp add: kook_init_def)
  from ev r alive st1 q show ?thesis by simp
qed

text \<open>
  C2 as stated fails when the handshake result of the next attempt carries an \<^verbatim>\<open>sn\<close> other
  than 0: the loop stores it in \<^verbatim>\<open>last_sn\<close> before the test \<^verbatim>\<open>if self.last_sn\<close>. After a
  handshake rejected with code 40103, the next attempt requests a gateway, and its
  handshake result with \<^verbatim>\<open>sn\<close> 7 sends a resume frame carrying 7.
\<close>

theorem handshake_sn_resumes_counterexample:
  "connect_attempt
      (\<lambda>t. Inr (PyDict [(''code'', PyInt 0), (''data'', PyDict [(''url'', PyStr ''wss://new'')])]))
      (kook_init\<lparr> ws_url := PyStr ''wss://old'', last_sn := 12 \<rparr>) None
      [\<lparr> payload_s = 1, payload_d = Some [(''code'', PyInt 40103)], payload_sn = None,
         payload_extra = None \<rparr>]
     = Aborted TimeoutError (kook_init\<lparr> effects := [OpenSocket (PyStr ''wss://old''), CloseSocket] \<rparr>)
   \<and> connect_attempt
      (\<lambda>t. Inr (PyDict [(''code'', PyInt 0), (''data'', PyDict [(''url'', PyStr ''wss://new'')])]))
      (kook_init\<lparr> effects := [OpenSocket (PyStr ''wss://old''), CloseSocket] \<rparr>) (Some ''gateway'')
      [\<lparr> payload_s = 1, payload_d = Some [(''code'', PyInt 0), (''session_id'', PyStr ''abc'')],
         payload_sn = Some 7, payload_extra = None \<rparr>]
     = Blocked (kook_init\<lparr> connection := True, ws_url := PyStr ''wss://new'', last_sn := 7,
         session := PyStr ''abc'',
         effects := [OpenSocket (PyStr ''wss://old''), CloseSocket, GatewayRequest,
           OpenSocket (PyStr ''wss://new''),
           Send \<lparr> payload_s = 4, payload_d = None, payload_sn = Some 7, payload_extra = None \<rparr>,
           StartHeartbeat] \<rparr>)"
  by (simp add: connect_attempt_def obtain_gateway_def get_request_def check_response_def
        kook_init_def still_alive_def handle_frame_def on_handshake_def payload_item_def
        send_def resume_frame_def close_connection_def Let_def)

text \<open>
  C7 (amended). On an accepted handshake result (kind 1, code 0) that carries a session
  id, let \<^verbatim>\<open>n\<close> be the \<^verbatim>\<open>sn\<close> of that frame if it has one, and the \<^verbatim>\<open>last_sn\<close> held before
  otherwise. Whatever session id was stored before: when \<^verbatim>\<open>n\<close> is not 0, the frame of kind 4
  with no data and the \<^verbatim>\<open>sn\<close> \<^verbatim>\<open>n\<close> is sent first, then the session id of the handshake is
  stored and the heartbeat started; when \<^verbatim>\<open>n\<close> is 0 no frame is sent. An attempt that
  starts with a cached endpoint and a \<^verbatim>\<open>last_sn\<close> other than 0, and whose handshake result
  has no \<^verbatim>\<open>sn\<close>, thus opens the socket, resumes and completes the handshake without a
  gateway request. A resume acknowledgement (kind 6) changes nothing but \<^verbatim>\<open>last_sn\<close> and
  sends nothing.
\<close>

theorem handshake_ok_resumes:
  assumes s1: "payload_s p = 1"
    and code: "payload_item p ''code'' = Inr c"
    and ok: "\<not> py_ne_zero c"
    and sess: "payload_item p ''session_id'' = Inr sid"
    and n: "n = (case payload_sn p of None \<Rightarrow> last_sn st | Some m \<Rightarrow> m)"
  shows "(connection st \<and> n \<noteq> 0 \<longrightarrow>
           handle_frame st p = Returned (st\<lparr> last_sn := n, session := sid,
             effects := effects st @
               [Send \<lparr> payload_s = 4, payload_d = None, payload_sn = Some n, payload_extra = None \<rparr>,
                StartHeartbeat] \<rparr>))
      \<and> (n = 0 \<longrightarrow>
           handle_frame st p = Returned (st\<lparr> last_sn := 0, session := sid,
             effects := effects st @ [StartHeartbeat] \<rparr>))
      \<and> (py_bool (ws_url st) \<and> keep_run st \<and> last_sn st \<noteq> 0 \<and> payload_sn p = None \<longrightarrow>
           connect_attempt L st h [p] = Blocked (st\<lparr> connection := True, session := sid,
             effects := effects st @
               [OpenSocket (ws_url st),
                Send \<lparr> payload_s = 4, payload_d = None, payload_sn = Some (last_sn st),
                  payload_extra = None \<rparr>,
                StartHeartbeat] \<rparr>))
      \<and> (\<forall>q st'. payload_s q = 6 \<longrightarrow>
           handle_frame st' q = Returned (case payload_sn q of None \<Rightarrow> st' | Some m \<Rightarrow> st'\<lparr> last_sn := m \<rparr>))"
  using assms
  by (auto simp: handle_frame_def on_handshake_def send_def resume_frame_def connect_attempt_def
        obtain_gateway_def still_alive_def Let_def split: option.splits)

text \<open>C7 on a reconnect with the sequence number 12.\<close>

theorem handshake_ok_resumes_witness:
  "handle_frame (kook_init\<lparr> connection := True, last_sn := 12 \<rparr>)
      \<lparr> payload_s = 1, payload_d = Some [(''code'', PyInt 0), (''session_id'', PyStr ''abc'')],
        payload_sn = None, payload_extra = None \<rparr>
     = Returned (kook_init\<lparr> connection := True, last_sn := 12, session := PyStr ''abc'',
         effects := [Send \<lparr> payload_s = 4, payload_d = None, payload_sn = Some 12,
           payload_extra = None \<rparr>, StartHeartbeat] \<rparr>)
   \<and> connect_attempt (\<lambda>t. Inr (PyDict [])) (kook_init\<lparr> ws_url := PyStr ''wss://gw'', last_sn := 12 \<rparr>) None
      [\<lparr> payload_s = 1, payload_d = Some [(''code'', PyInt 0), (''session_id'', PyStr ''abc'')],
         payload_sn = None, payload_extra = None \<rparr>]
     = Blocked (kook_init\<lparr> ws_url := PyStr ''wss://gw'', last_sn := 12, connection := True,
         session := PyStr ''abc'',
         effects := [OpenSocket (PyStr ''wss://gw''),
           Send \<lparr> payload_s = 4, payload_d = None, payload_sn = Some 12, payload_extra = None \<rparr>,
           StartHeartbeat] \<rparr>)
   \<and> handle_frame (kook_init\<lparr> connection := True, last_sn := 12 \<rparr>)
      \<lparr> payload_s = 6, payload_d = None, payload_sn = None, payload_extra = None \<rparr>
     = Returned (kook_init\<lparr> connection := True, last_sn := 12 \<rparr>)"
proof -
  let ?P = "\<lparr> payload_s = 1, payload_d = Some [(''code'', PyInt 0), (''session_id'', PyStr ''abc'')],
        payload_sn = None, payload_extra = None \<rparr>"
  have s1: "payload_s ?P = 1" by simp
  have code: "payload_item ?P ''code'' = Inr (PyInt 0)" by (simp add: payload_item_def)
  have ok: "\<not> py_ne_zero (PyInt 0)" by simp
  have sess: "payload_item ?P ''session_id'' = Inr (PyStr ''abc'')" by (simp add: payload_item_def)
  have n1: "12 = (case payload_sn ?P of None \<Rightarrow> last_sn (kook_init\<lparr> connection := True, last_sn := 12 \<rparr>)
      | Some m \<Rightarrow> m)" by simp
  have n2: "12 = (case payload_sn ?P of None \<Rightarrow> last_sn (kook_init\<lparr> ws_url := PyStr ''wss://gw'', last_sn := 12 \<rparr>)
      | Some m \<Rightarrow> m)" by simp
  from handshake_ok_resumes [OF s1 code ok sess n1, of "\<lambda>t. Inr (PyDict [])" None]
       handshake_ok_resumes [OF s1 code ok sess n2, of "\<lambda>t. Inr (PyDict [])" None]
  show ?thesis by (simp add: kook_init_def)
qed

text \<open>
  C7 as stated fails in two ways. The test is on \<^verbatim>\<open>last_sn\<close> alone, after the \<^verbatim>\<open>sn\<close> of the
  handshake result itself has been stored in it. On a reconnect with the session id
  \<^verbatim>\<open>abc\<close> and the sequence number 12, an accepted handshake result carrying the \<^verbatim>\<open>sn\<close> 0
  sends no resume frame: the heartbeat alone is started and the sequence number is lost.
  And with the session id \<^verbatim>\<open>abc\<close> and the sequence number 0, an accepted handshake result
  without \<^verbatim>\<open>sn\<close> sends no resume frame either.
\<close>

theorem handshake_ok_no_resume_counterexample:
  "handle_frame (kook_init\<lparr> connection := True, session := PyStr ''abc'', last_sn := 12 \<rparr>)
      \<lparr> payload_s = 1, payload_d = Some [(''code'', PyInt 0), (''session_id'', PyStr ''xyz'')],
        payload_sn = Some 0, payload_extra = None \<rparr>
     = Returned (kook_init\<lparr> connection := True, session := PyStr ''xyz'', last_sn := 0,
         effects := [StartHeartbeat] \<rparr>)
   \<and> handle_frame (kook_init\<lparr> connection := True, session := PyStr ''abc'', last_sn := 0 \<rparr>)
      \<lparr> payload_s = 1, payload_d = Some [(''code'', PyInt 0), (''session_id'', PyStr ''xyz'')],
        payload_sn = None, payload_extra = None \<rparr>
     = Returned (kook_init\<lparr> connection := True, session := PyStr ''xyz'', last_sn := 0,
         effects := [StartHeartbeat] \<rparr>)"
  by (simp add: handle_frame_def on_handshake_def payload_item_def kook_init_def send_def
        resume_frame_def Let_def)

lemma handle_frame_plain:
  assumes "payload_s p \<noteq> 1" "payload_s p \<noteq> 5"
  shows "\<exists>st1. handle_frame st p = Returned st1
     \<and> connection st1 = connection st \<and> keep_run st1 = keep_run st
     \<and> closes st1 = closes st
     \<and> pong st1 = (if payload_s p = 3 then 1 else pong st)"
  using assms by (auto simp: handle_frame_def closes_def split: option.splits)

lemma recv_loop_plain:
  assumes "\<forall>p\<in>set ps. payload_s p \<noteq> 1 \<and> payload_s p \<noteq> 5" "still_alive st"
  shows "\<exists>st1. snd (recv_loop st ps) = Waiting st1
     \<and> connection st1 = connection st \<and> keep_run st1 = keep_run st
     \<and> closes st1 = closes st
     \<and> pong st1 = (if \<exists>p\<in>set ps. payload_s p = 3 then 1 else pong st)"
  using assms
proof (induction ps arbitrary: st)
  case Nil
  then show ?case by simp
next
  case (Cons p ps)
  from Cons.prems have p: "payload_s p \<noteq> 1" "payload_s p \<noteq> 5" by auto
  from handle_frame_plain [OF p, of st] obtain st1 where
    h: "handle_frame st p = Returned st1" "connection st1 = connection st"
       "keep_run st1 = keep_run st" "closes st1 = closes st"
       "pong st1 = (if payload_s p = 3 then 1 else pong st)"
    by blast
  then have alive1: "still_alive st1" using Cons.prems(2) by (simp add: still_alive_def)
  from Cons.IH [OF _ alive1] Cons.prems(1) obtain st2 where
    r: "snd (recv_loop st1 ps) = Waiting st2" "connection st2 = connection st1"
       "keep_run st2 = keep_run st1" "closes st2 = closes st1"
       "pong st2 = (if \<exists>p\<in>set ps. payload_s p = 3 then 1 else pong st1)"
    by auto
  show ?case
    using h r Cons.prems(2) by (auto split: prod.splits)
qed

lemma during_sleep_plain:
  assumes "\<forall>p\<in>set ps. payload_s p \<noteq> 1 \<and> payload_s p \<noteq> 5" "still_alive st"
  shows "still_alive (during_sleep st ps) \<and> closes (during_sleep st ps) = closes st
     \<and> pong (during_sleep st ps) = (if \<exists>p\<in>set ps. payload_s p = 3 then 1 else pong st)"
  using recv_loop_plain [OF assms] assms(2)
  by (auto simp: during_sleep_def still_alive_def)

lemma wait_loop_no_ack:
  assumes "pong st = 0" "still_alive st" "sec < 30" "d = 30 - sec"
    and "\<forall>t\<in>set (take d ticks). \<forall>p\<in>set t. payload_s p \<notin> {1, 3, 5}"
  shows "closes (wait_loop sec st ticks) = Suc (closes st) \<and> \<not> connection (wait_loop sec st ticks)"
  using assms
proof (induction d arbitrary: sec st ticks)
  case 0
  then show ?case by simp
next
  case (Suc d)
  let ?fs = "case ticks of [] \<Rightarrow> [] | t # ts \<Rightarrow> t"
  have fs: "\<forall>p\<in>set ?fs. payload_s p \<noteq> 1 \<and> payload_s p \<noteq> 5" "\<not> (\<exists>p\<in>set ?fs. payload_s p = 3)"
    using Suc.prems(5) by (auto split: list.splits)
  from during_sleep_plain [OF fs(1) Suc.prems(2)] fs(2) Suc.prems(1)
  have ds: "still_alive (during_sleep st ?fs)" "closes (during_sleep st ?fs) = closes st"
    "pong (during_sleep st ?fs) = 0"
    by auto
  show ?case
  proof (cases "Suc sec \<ge> 30")
    case True
    have "wait_loop sec st ticks = wait_loop (Suc sec) (close_connection (during_sleep st ?fs)) (tl ticks)"
      using Suc.prems(1,2) True by (subst wait_loop.simps) (simp add: Let_def)
    also have "\<dots> = close_connection (during_sleep st ?fs)"
      by (subst wait_loop.simps) (simp add: still_alive_def close_connection_def)
    finally show ?thesis
      using ds by (simp add: close_connection_def closes_def still_alive_def)
  next
    case False
    have step: "wait_loop sec st ticks = wait_loop (Suc sec) (during_sleep st ?fs) (tl ticks)"
      using Suc.prems(1,2) False by (subst wait_loop.simps) (simp add: Let_def)
    have rest: "\<forall>t\<in>set (take d (tl ticks)). \<forall>p\<in>set t. payload_s p \<notin> {1, 3, 5}"
      using Suc.prems(5) by (cases ticks) auto
    from Suc.IH [OF ds(3) ds(1) _ _ rest, of "Suc sec"] False Suc.prems(4)
    show ?thesis using step ds(2) by simp
  qed
qed

lemma wait_loop_ack:
  assumes "pong st = 0" "still_alive st" "sec + i < 29" "i < length ticks"
    and "\<forall>t\<in>set (take i ticks). \<forall>p\<in>set t. payload_s p \<notin> {1, 3, 5}"
    and "\<forall>p\<in>set (ticks ! i). payload_s p \<notin> {1, 5}"
    and "\<exists>p\<in>set (ticks ! i). payload_s p = 3"
  shows "closes (wait_loop sec st ticks) = closes st \<and> connection (wait_loop sec st ticks)
     \<and> pong (wait_loop sec st ticks) = 1"
  using assms
proof (induction i arbitrary: sec st ticks)
  case 0
  then obtain t ts where ticks: "ticks = t # ts" by (cases ticks) auto
  have fs: "\<forall>p\<in>set t. payload_s p \<noteq> 1 \<and> payload_s p \<noteq> 5" "\<exists>p\<in>set t. payload_s p = 3"
    using "0.prems"(6,7) ticks by auto
  from during_sleep_plain [OF fs(1) "0.prems"(2)] fs(2)
  have ds: "still_alive (during_sleep st t)" "closes (during_sleep st t) = closes st"
    "pong (during_sleep st t) = 1"
    by auto
  have "wait_loop sec st ticks = wait_loop (Suc sec) (during_sleep st t) ts"
    using "0.prems"(1,2,3) ticks by (subst wait_loop.simps) (simp add: Let_def)
  also have "\<dots> = during_sleep st t"
    using ds(3) by (subst wait_loop.simps) simp
  finally show ?case using ds by (simp add: still_alive_def)
next
  case (Suc i)
  then obtain t ts where ticks: "ticks = t # ts" by (cases ticks) auto
  have fs: "\<forall>p\<in>set t. payload_s p \<noteq> 1 \<and> payload_s p \<noteq> 5" "\<not> (\<exists>p\<in>set t. payload_s p = 3)"
    using Suc.prems(5) ticks by auto
  from during_sleep_plain [OF fs(1) Suc.prems(2)] fs(2) Suc.prems(1)
  have ds: "still_alive (during_sleep st t)" "closes (during_sleep st t) = closes st"
    "pong (during_sleep st t) = 0"
    by auto
  have step: "wait_loop sec st ticks = wait_loop (Suc sec) (during_sleep st t) ts"
    using Suc.prems(1,2,3) ticks by (subst wait_loop.simps) (simp add: Let_def)
  have "closes (wait_loop (Suc sec) (during_sleep st t) ts) = closes (during_sleep st t)
     \<and> connection (wait_loop (Suc sec) (during_sleep st t) ts)
     \<and> pong (wait_loop (Suc sec) (during_sleep st t) ts) = 1"
    using Suc.prems(3-7) ticks by (intro Suc.IH [OF ds(3) ds(1)]) auto
  then show ?case using step ds(2) by simp
qed

text \<open>
  C6. A watchdog started with the flag at 0 on a live connection: when none of the
  frames of the next 30 seconds is an acknowledgement (and none ends the session), it
  closes the socket exactly once, and the flag is 0 afterwards; when an acknowledgement
  (kind 3) arrives in one of the first 29 seconds, the watchdog finds the flag at 1, sets
  it to 0 and closes nothing. The flag is 0 whenever a watchdog has ended.
\<close>

theorem watchdog_closes_once:
  assumes "pong st = 0" and "still_alive st"
  shows "((\<forall>t\<in>set (take 30 ticks). \<forall>p\<in>set t. payload_s p \<notin> {1, 3, 5}) \<longrightarrow>
            closes (wait_heartbeat st ticks) = Suc (closes st)
            \<and> \<not> connection (wait_heartbeat st ticks)
            \<and> pong (wait_heartbeat st ticks) = 0)
      \<and> (i < 29 \<and> i < length ticks
           \<and> (\<forall>t\<in>set (take i ticks). \<forall>p\<in>set t. payload_s p \<notin> {1, 3, 5})
           \<and> (\<forall>p\<in>set (ticks ! i). payload_s p \<notin> {1, 5})
           \<and> (\<exists>p\<in>set (ticks ! i). payload_s p = 3) \<longrightarrow>
            pong (wait_loop 0 st ticks) = 1
            \<and> pong (wait_heartbeat st ticks) = 0
            \<and> closes (wait_heartbeat st ticks) = closes st
            \<and> connection (wait_heartbeat st ticks))
      \<and> (\<forall>st' ticks'. pong (wait_heartbeat st' ticks') = 0)"
proof (intro conjI impI allI)
  assume q: "\<forall>t\<in>set (take 30 ticks). \<forall>p\<in>set t. payload_s p \<notin> {1, 3, 5}"
  from wait_loop_no_ack [OF assms _ _ q, of 0]
  have w: "closes (wait_loop 0 st ticks) = Suc (closes st)" "\<not> connection (wait_loop 0 st ticks)"
    by auto
  from w(1) show "closes (wait_heartbeat st ticks) = Suc (closes st)"
    by (simp add: wait_heartbeat_def closes_def)
  from w(2) show "\<not> connection (wait_heartbeat st ticks)"
    by (simp add: wait_heartbeat_def)
  show "pong (wait_heartbeat st ticks) = 0"
    by (simp add: wait_heartbeat_def)
next
  assume a: "i < 29 \<and> i < length ticks
           \<and> (\<forall>t\<in>set (take i ticks). \<forall>p\<in>set t. payload_s p \<notin> {1, 3, 5})
           \<and> (\<forall>p\<in>set (ticks ! i). payload_s p \<notin> {1, 5})
           \<and> (\<exists>p\<in>set (ticks ! i). payload_s p = 3)"
  then have "closes (wait_loop 0 st ticks) = closes st \<and> connection (wait_loop 0 st ticks)
     \<and> pong (wait_loop 0 st ticks) = 1"
    using assms by (intro wait_loop_ack [of st 0 i ticks]) auto
  then show "pong (wait_loop 0 st ticks) = 1"
    and "pong (wait_heartbeat st ticks) = 0"
    and "closes (wait_heartbeat st ticks) = closes st"
    and "connection (wait_heartbeat st ticks)"
    by (simp_all add: wait_heartbeat_def closes_def)
next
  fix st' ticks'
  show "pong (wait_heartbeat st' ticks') = 0"
    by (simp add: wait_heartbeat_def)
qed

text \<open>C6 on a cycle without an acknowledgement, and on one acknowledged in the second second.\<close>

theorem watchdog_closes_once_witness:
  "closes (wait_heartbeat (kook_init\<lparr> connection := True \<rparr>)
      [[\<lparr> payload_s = 0, payload_d = None, payload_sn = Some 4, payload_extra = None \<rparr>]]) = 1
   \<and> \<not> connection (wait_heartbeat (kook_init\<lparr> connection := True \<rparr>)
      [[\<lparr> payload_s = 0, payload_d = None, payload_sn = Some 4, payload_extra = None \<rparr>]])
   \<and> pong (wait_loop 0 (kook_init\<lparr> connection := True \<rparr>)
      [[], [\<lparr> payload_s = 3, payload_d = None, payload_sn = None, payload_extra = None \<rparr>]]) = 1
   \<and> pong (wait_heartbeat (kook_init\<lparr> connection := True \<rparr>)
      [[], [\<lparr> payload_s = 3, payload_d = None, payload_sn = None, payload_extra = None \<rparr>]]) = 0
   \<and> closes (wait_heartbeat (kook_init\<lparr> connection := True \<rparr>)
      [[], [\<lparr> payload_s = 3, payload_d = None, payload_sn = None, payload_extra = None \<rparr>]]) = 0
   \<and> connection (wait_heartbeat (kook_init\<lparr> connection := True \<rparr>)
      [[], [\<lparr> payload_s = 3, payload_d = None, payload_sn = None, payload_extra = None \<rparr>]])"
proof -
  let ?st = "kook_init\<lparr> connection := True \<rparr>"
  let ?quiet = "[[\<lparr> payload_s = 0, payload_d = None, payload_sn = Some 4, payload_extra = None \<rparr>]]"
  let ?acked = "[[], [\<lparr> payload_s = 3, payload_d = None, payload_sn = None, payload_extra = None \<rparr>]]"
  have p: "pong ?st = 0" and al: "still_alive ?st" and c: "closes ?st = 0"
    by (simp_all add: kook_init_def still_alive_def closes_def)
  have q: "\<forall>t\<in>set (take 30 ?quiet). \<forall>p\<in>set t. payload_s p \<notin> {1, 3, 5}"
    by simp
  have a: "(1::nat) < 29 \<and> 1 < length ?acked
           \<and> (\<forall>t\<in>set (take 1 ?acked). \<forall>p\<in>set t. payload_s p \<notin> {1, 3, 5})
           \<and> (\<forall>p\<in>set (?acked ! 1). payload_s p \<notin> {1, 5})
           \<and> (\<exists>p\<in>set (?acked ! 1). payload_s p = 3)"
    by simp
  from watchdog_closes_once [OF p al, of ?quiet, THEN conjunct1, THEN mp, OF q]
       watchdog_closes_once [OF p al, of ?acked 1, THEN conjunct2, THEN conjunct1, THEN mp, OF a]
       c
  show ?thesis by simp
qed

text \<open>
  C4 fails on the code. A host and a plugin that both hold handlers for the event
  \<^verbatim>\<open>e\<close> (the host's list object at address 0 holds handler 5, the plugin's at address 1
  holds handler 6): reading \<^verbatim>\<open>event_handlers\<close> returns the host's own list object for
  \<^verbatim>\<open>e\<close>, extended in place to 5, 6; read again, the property gives 5, 6, 6.
\<close>

theorem event_handlers_read_extends_host_list:
  "fst (event_handlers
      (Factory 0 ((own (factory_init 0 :: (nat, unit) factory))\<lparr> own_event_handlers := [(''e'', 0)] \<rparr>)
         [(''p'', Factory 1 ((own (factory_init 1))\<lparr> own_event_handlers := [(''e'', 1)] \<rparr>) [])])
      ((\<lambda>a. [])(0 := [5], 1 := [6::nat]))) = [(''e'', 0)]
   \<and> snd (event_handlers
      (Factory 0 ((own (factory_init 0 :: (nat, unit) factory))\<lparr> own_event_handlers := [(''e'', 0)] \<rparr>)
         [(''p'', Factory 1 ((own (factory_init 1))\<lparr> own_event_handlers := [(''e'', 1)] \<rparr>) [])])
      ((\<lambda>a. [])(0 := [5], 1 := [6::nat]))) 0 = [5, 6]
   \<and> dict_content own_event_handlers
      \<lparr> host = Factory 0 ((own (factory_init 0 :: (nat, unit) factory))\<lparr> own_event_handlers := [(''e'', 0)] \<rparr>)
         [(''p'', Factory 1 ((own (factory_init 1))\<lparr> own_event_handlers := [(''e'', 1)] \<rparr>) [])],
        heap = (\<lambda>a. [])(0 := [5], 1 := [6::nat]) \<rparr> = [(''e'', [5, 6])]
   \<and> dict_content own_event_handlers
      \<lparr> host = Factory 0 ((own (factory_init 0 :: (nat, unit) factory))\<lparr> own_event_handlers := [(''e'', 0)] \<rparr>)
         [(''p'', Factory 1 ((own (factory_init 1))\<lparr> own_event_handlers := [(''e'', 1)] \<rparr>) [])],
        heap = snd (event_handlers
          (Factory 0 ((own (factory_init 0 :: (nat, unit) factory))\<lparr> own_event_handlers := [(''e'', 0)] \<rparr>)
            [(''p'', Factory 1 ((own (factory_init 1))\<lparr> own_event_handlers := [(''e'', 1)] \<rparr>) [])])
          ((\<lambda>a. [])(0 := [5], 1 := [6::nat]))) \<rparr> = [(''e'', [5, 6, 6])]"
  by (simp add: event_handlers_def dict_content_def Let_def factory_init_def chainmap_dict_def
        chainmap_keys_def view_content_def)

text \<open>
  C3 fails on the code for a key that two plugins contribute: with the plugins \<^verbatim>\<open>p1\<close> and
  \<^verbatim>\<open>p2\<close> holding the handlers 5 and 6 for the event \<^verbatim>\<open>e\<close>, the merged view has handler 5
  only. The list views of the same plugins hold the entries of both.
\<close>

theorem later_plugin_entries_dropped:
  "dict_content own_event_handlers
      \<lparr> host = Factory 0 (own (factory_init 0 :: (nat, unit) factory))
         [(''p1'', Factory 1 ((own (factory_init 1))\<lparr> own_event_handlers := [(''e'', 1)] \<rparr>) []),
          (''p2'', Factory 2 ((own (factory_init 2))\<lparr> own_event_handlers := [(''e'', 2)] \<rparr>) [])],
        heap = (\<lambda>a. [])(1 := [5], 2 := [6::nat]) \<rparr> = [(''e'', [5])]
   \<and> message_handlers
      (Factory 0 ((own (factory_init 0 :: (nat, unit) factory))\<lparr> own_message_handlers := [4::nat] \<rparr>)
         [(''p1'', Factory 1 ((own (factory_init 1))\<lparr> own_message_handlers := [5] \<rparr>) []),
          (''p2'', Factory 2 ((own (factory_init 2))\<lparr> own_message_handlers := [6] \<rparr>) [])]) = [4, 5, 6]"
  by (simp add: dict_content_def Let_def factory_init_def chainmap_dict_def
        chainmap_keys_def view_content_def message_handlers_def)

text \<open>
  C8 fails on the code in its last part, the removal of an uninstalled plugin from all
  merged views. A host holds handler 5 for the event \<^verbatim>\<open>e\<close> (list object at address 0), the
  plugin \<^verbatim>\<open>p\<close> holds handler 6 for it (address 1). \<^verbatim>\<open>p\<close> is installed, \<^verbatim>\<open>event_handlers\<close> is
  read once, which extends the host's own list object to 5, 6, and \<^verbatim>\<open>p\<close> is uninstalled: it
  is deleted from \<^verbatim>\<open>plugins\<close>, but the merged view of the host still holds the plugin's
  handler 6 for \<^verbatim>\<open>e\<close>, where it held handler 5 alone before the install.
\<close>

theorem handler_survives_uninstall_after_read:
  "install_plugin install_default
      \<lparr> plugin_id = ''p'',
        base = Factory 1 ((own (factory_init 1))\<lparr> own_event_handlers := [(''e'', 1)] \<rparr>) [] \<rparr>
      \<lparr> host = Factory 0 ((own (factory_init 0 :: (nat, unit) factory))\<lparr> own_event_handlers := [(''e'', 0)] \<rparr>) [],
        heap = (\<lambda>a. [])(0 := [5], 1 := [6::nat]) \<rparr>
     = Returned
      \<lparr> host = Factory 0 ((own (factory_init 0))\<lparr> own_event_handlers := [(''e'', 0)] \<rparr>)
           [(''p'', Factory 1 ((own (factory_init 1))\<lparr> own_event_handlers := [(''e'', 1)] \<rparr>) [])],
        heap = (\<lambda>a. [])(0 := [5], 1 := [6]) \<rparr>
   \<and> snd (event_handlers
      (Factory 0 ((own (factory_init 0 :: (nat, unit) factory))\<lparr> own_event_handlers := [(''e'', 0)] \<rparr>)
         [(''p'', Factory 1 ((own (factory_init 1))\<lparr> own_event_handlers := [(''e'', 1)] \<rparr>) [])])
      ((\<lambda>a. [])(0 := [5], 1 := [6::nat]))) = (\<lambda>a. [])(0 := [5, 6], 1 := [6])
   \<and> uninstall_plugin uninstall_default ''p''
      \<lparr> host = Factory 0 ((own (factory_init 0 :: (nat, unit) factory))\<lparr> own_event_handlers := [(''e'', 0)] \<rparr>)
           [(''p'', Factory 1 ((own (factory_init 1))\<lparr> own_event_handlers := [(''e'', 1)] \<rparr>) [])],
        heap = (\<lambda>a. [])(0 := [5, 6], 1 := [6::nat]) \<rparr>
     = Returned
      \<lparr> host = Factory 0 ((own (factory_init 0))\<lparr> own_event_handlers := [(''e'', 0)] \<rparr>) [],
        heap = (\<lambda>a. [])(0 := [5, 6], 1 := [6]) \<rparr>
   \<and> dict_content own_event_handlers
      \<lparr> host = Factory 0 ((own (factory_init 0 :: (nat, unit) factory))\<lparr> own_event_handlers := [(''e'', 0)] \<rparr>) [],
        heap = (\<lambda>a. [])(0 := [5, 6], 1 := [6::nat]) \<rparr> = [(''e'', [5, 6])]
   \<and> dict_content own_event_handlers
      \<lparr> host = Factory 0 ((own (factory_init 0 :: (nat, unit) factory))\<lparr> own_event_handlers := [(''e'', 0)] \<rparr>) [],
        heap = (\<lambda>a. [])(0 := [5], 1 := [6::nat]) \<rparr> = [(''e'', [5])]"
  by (auto simp: install_plugin_def install_default_def uninstall_plugin_def uninstall_default_def
        dict_keys_def dict_del_def prefix_keywords_def set_prefix_keywords_def
        add_prefix_keywords_def factory_init_def event_handlers_def dict_content_def Let_def
        chainmap_dict_def chainmap_keys_def view_content_def)

text \<open>
  Each merged list view is the factory's own list followed by the merged views of its
  plugins, in the order of the \<^verbatim>\<open>plugins\<close> dictionary.
\<close>

theorem list_views_concatenate:
  "prefix_keywords f = own_prefix_keywords (own f) @ concat (map (\<lambda>p. prefix_keywords (snd p)) (plugins f))
   \<and> message_handlers f = own_message_handlers (own f) @ concat (map (\<lambda>p. message_handlers (snd p)) (plugins f))
   \<and> before_reply_handlers f
       = own_before_reply_handlers (own f) @ concat (map (\<lambda>p. before_reply_handlers (snd p)) (plugins f))
   \<and> after_reply_handlers f
       = own_after_reply_handlers (own f) @ concat (map (\<lambda>p. after_reply_handlers (snd p)) (plugins f))
   \<and> message_handler_middleware f
       = own_message_handler_middleware (own f)
         @ concat (map (\<lambda>p. message_handler_middleware (snd p)) (plugins f))"
  by (cases f)
     (simp add: prefix_keywords_def message_handlers_def before_reply_handlers_def
        after_reply_handlers_def message_handler_middleware_def)

lemma merge_step_new:
  "map_of val k = None \<Longrightarrow>
   merge_plugin_value val ((k, a) # rest) h = merge_plugin_value (val @ [(k, a)]) rest h"
  by simp

lemma merge_step_old:
  "map_of val k = Some b \<Longrightarrow> H = h(b := h b @ h a) \<Longrightarrow>
   merge_plugin_value val ((k, a) # rest) h = merge_plugin_value val rest H"
  by simp

lemma merge_fst_heap:
  "fst (merge_plugin_value val pv h) = fst (merge_plugin_value val pv h')"
proof (induction pv arbitrary: val h h')
  case Nil
  then show ?case by simp
next
  case (Cons p pv)
  obtain k a where p: "p = (k, a)" by (cases p)
  show ?case
  proof (cases "map_of val k")
    case None
    then show ?thesis using Cons.IH [of "val @ [(k, a)]" h h'] p by simp
  next
    case (Some b)
    define H where "H = h(b := h b @ h a)"
    define H' where "H' = h'(b := h' b @ h' a)"
    show ?thesis
      unfolding p merge_step_old [OF Some H_def] merge_step_old [OF Some H'_def]
      by (rule Cons.IH)
  qed
qed

lemma merge_addrs:
  "snd ` set (fst (merge_plugin_value val pv h)) \<subseteq> snd ` set val \<union> snd ` set pv"
proof (induction pv arbitrary: val h)
  case Nil
  then show ?case by simp
next
  case (Cons p pv)
  obtain k a where p: "p = (k, a)" by (cases p)
  show ?case
  proof (cases "map_of val k")
    case None
    then show ?thesis using Cons.IH [of "val @ [(k, a)]" h] p by auto
  next
    case (Some b)
    define H where "H = h(b := h b @ h a)"
    show ?thesis
      unfolding p merge_step_old [OF Some H_def]
      using Cons.IH [of val H] by auto
  qed
qed

lemma merge_heap_agree:
  assumes "\<forall>a\<in>R. h a = h' a" "snd ` set val \<subseteq> R" "snd ` set pv \<subseteq> R"
  shows "\<forall>a\<in>R. snd (merge_plugin_value val pv h) a = snd (merge_plugin_value val pv h') a"
  using assms
proof (induction pv arbitrary: val h h')
  case Nil
  then show ?case by simp
next
  case (Cons p pv)
  obtain k a where p: "p = (k, a)" by (cases p)
  have aR: "a \<in> R" and pvR: "snd ` set pv \<subseteq> R" using Cons.prems(3) p by auto
  show ?case
  proof (cases "map_of val k")
    case None
    have "snd ` set (val @ [(k, a)]) \<subseteq> R" using Cons.prems(2) aR by auto
    from Cons.IH [OF Cons.prems(1) this pvR] None p show ?thesis by simp
  next
    case (Some b)
    define H where "H = h(b := h b @ h a)"
    define H' where "H' = h'(b := h' b @ h' a)"
    have "b \<in> R" using Some Cons.prems(2) by (force dest: map_of_SomeD)
    then have "\<forall>x\<in>R. H x = H' x"
      using aR Cons.prems(1) by (simp add: H_def H'_def)
    from Cons.IH [OF this Cons.prems(2) pvR]
    show ?thesis
      unfolding p merge_step_old [OF Some H_def] merge_step_old [OF Some H'_def] .
  qed
qed

lemma chainmap_get_in: "chainmap_get ms k = Some v \<Longrightarrow> \<exists>m\<in>set ms. (k, v) \<in> set m"
  by (induction ms) (auto split: option.splits dest: map_of_SomeD)

lemma chainmap_dict_addrs: "snd ` set (chainmap_dict ms) \<subseteq> (\<Union>m\<in>set ms. snd ` set m)"
proof
  fix a
  assume "a \<in> snd ` set (chainmap_dict ms)"
  then obtain k where "(k, a) \<in> set (chainmap_dict ms)" by auto
  then have "chainmap_get ms k = Some a"
    by (auto simp: chainmap_dict_def List.map_filter_def)
  then obtain m where "m \<in> set ms" "(k, a) \<in> set m"
    using chainmap_get_in by fastforce
  then show "a \<in> (\<Union>m\<in>set ms. snd ` set m)" by force
qed

lemma views_fst_heap:
  "fst (dict_view sel f h) = fst (dict_view sel f h')"
  "fst (plugin_views sel ps h) = fst (plugin_views sel ps h')"
proof (induction sel f h and sel ps h arbitrary: h' and h' rule: dict_view_plugin_views.induct)
  case (1 sel i c ps h)
  then show ?case
    by (simp split: prod.splits) (metis fst_conv merge_fst_heap)
next
  case (2 sel h)
  then show ?case by simp
next
  case (3 sel p ps h)
  then show ?case
    by (simp split: prod.splits) (metis fst_conv)
qed

lemma views_addrs:
  "snd ` set (fst (dict_view sel f h)) \<subseteq> addrs sel f"
  "(\<Union>m\<in>set (fst (plugin_views sel ps h)). snd ` set m) \<subseteq> (\<Union>p\<in>set ps. addrs sel (snd p))"
proof (induction sel f h and sel ps h rule: dict_view_plugin_views.induct)
  case (1 sel i c ps h)
  obtain ms h1 where pv: "plugin_views sel ps h = (ms, h1)" by (cases "plugin_views sel ps h")
  have "snd ` set (fst (merge_plugin_value (sel c) (chainmap_dict ms) h1))
      \<subseteq> snd ` set (sel c) \<union> snd ` set (chainmap_dict ms)"
    by (rule merge_addrs)
  also have "\<dots> \<subseteq> snd ` set (sel c) \<union> (\<Union>m\<in>set ms. snd ` set m)"
    using chainmap_dict_addrs [of ms] by blast
  also have "\<dots> \<subseteq> snd ` set (sel c) \<union> (\<Union>p\<in>set ps. addrs sel (snd p))"
    using "1.IH" pv by auto
  finally show ?case using pv by simp
next
  case (2 sel h)
  then show ?case by simp
next
  case (3 sel p ps h)
  obtain m h1 where dv: "dict_view sel (snd p) h = (m, h1)" by (cases "dict_view sel (snd p) h")
  obtain ms h2 where pv: "plugin_views sel ps h1 = (ms, h2)" by (cases "plugin_views sel ps h1")
  have a: "snd ` set m \<subseteq> addrs sel (snd p)" using "3.IH"(1) dv by simp
  have b: "(\<Union>m\<in>set ms. snd ` set m) \<subseteq> (\<Union>p\<in>set ps. addrs sel (snd p))"
    using "3.IH"(2) [OF dv [symmetric]] pv by simp
  have "(\<Union>m\<in>set (m # ms). snd ` set m) \<subseteq> (\<Union>p\<in>set (p # ps). addrs sel (snd p))"
    using a b by (simp add: le_supI1 le_supI2)
  then show ?case using dv pv by simp
qed

lemma views_heap_agree:
  "\<forall>a\<in>R. h a = h' a \<Longrightarrow> addrs sel f \<subseteq> R \<Longrightarrow>
     \<forall>a\<in>R. snd (dict_view sel f h) a = snd (dict_view sel f h') a"
  "\<forall>a\<in>R. h a = h' a \<Longrightarrow> (\<Union>p\<in>set ps. addrs sel (snd p)) \<subseteq> R \<Longrightarrow>
     \<forall>a\<in>R. snd (plugin_views sel ps h) a = snd (plugin_views sel ps h') a"
proof (induction sel f h and sel ps h arbitrary: h' and h' rule: dict_view_plugin_views.induct)
  case (1 sel i c ps h)
  obtain ms h1 where pv: "plugin_views sel ps h = (ms, h1)" by (cases "plugin_views sel ps h")
  obtain ms' h1' where pv': "plugin_views sel ps h' = (ms', h1')" by (cases "plugin_views sel ps h'")
  have ms: "ms' = ms" using views_fst_heap(2) [of sel ps h h'] pv pv' by simp
  have sub: "(\<Union>p\<in>set ps. addrs sel (snd p)) \<subseteq> R" using "1.prems"(2) by auto
  have h1: "\<forall>a\<in>R. h1 a = h1' a"
    using "1.IH" [OF "1.prems"(1) sub] pv pv' by simp
  have v: "snd ` set (sel c) \<subseteq> R" using "1.prems"(2) by auto
  have "snd ` set (chainmap_dict ms) \<subseteq> (\<Union>m\<in>set ms. snd ` set m)"
    by (rule chainmap_dict_addrs)
  also have "\<dots> \<subseteq> (\<Union>p\<in>set ps. addrs sel (snd p))"
    using views_addrs(2) [of sel ps h] pv by simp
  finally have p: "snd ` set (chainmap_dict ms) \<subseteq> R" using sub by blast
  from merge_heap_agree [OF h1 v p] show ?case using pv pv' ms by simp
next
  case (2 sel h)
  then show ?case by simp
next
  case (3 sel p ps h)
  obtain m h1 where dv: "dict_view sel (snd p) h = (m, h1)" by (cases "dict_view sel (snd p) h")
  obtain m' h1' where dv': "dict_view sel (snd p) h' = (m', h1')" by (cases "dict_view sel (snd p) h'")
  obtain ms h2 where pv: "plugin_views sel ps h1 = (ms, h2)" by (cases "plugin_views sel ps h1")
  obtain ms' h2' where pv': "plugin_views sel ps h1' = (ms', h2')" by (cases "plugin_views sel ps h1'")
  have s1: "addrs sel (snd p) \<subseteq> R" and s2: "(\<Union>p\<in>set ps. addrs sel (snd p)) \<subseteq> R"
    using "3.prems"(2) by auto
  have h1: "\<forall>a\<in>R. h1 a = h1' a"
    using "3.IH"(1) [OF "3.prems"(1) s1] dv dv' by simp
  have "\<forall>a\<in>R. h2 a = h2' a"
    using "3.IH"(2) [OF dv [symmetric] h1 s2] pv pv' by simp
  then show ?case using dv dv' pv pv' by simp
qed

lemma view_content_agree:
  assumes "\<forall>a\<in>addrs sel f. h a = h' a"
  shows "view_content (snd (dict_view sel f h)) (fst (dict_view sel f h))
       = view_content (snd (dict_view sel f h')) (fst (dict_view sel f h'))"
proof -
  have "\<forall>a\<in>addrs sel f. snd (dict_view sel f h) a = snd (dict_view sel f h') a"
    using views_heap_agree(1) [OF assms] by blast
  moreover have "snd ` set (fst (dict_view sel f h)) \<subseteq> addrs sel f"
    by (rule views_addrs)
  ultimately show ?thesis
    unfolding view_content_def views_fst_heap(1) [of sel f h' h]
    by (intro map_cong) auto
qed

lemma dict_set_fresh: "k \<notin> set (dict_keys kvs) \<Longrightarrow> dict_set kvs k v = kvs @ [(k, v)]"
  by (induction kvs) (auto simp: dict_keys_def)

lemma dict_del_fresh: "k \<notin> set (dict_keys kvs) \<Longrightarrow> dict_del (kvs @ [(k, v)]) k = kvs"
  by (induction kvs) (auto simp: dict_keys_def dict_del_def)

lemma dict_del_keys: "k \<notin> set (dict_keys (dict_del kvs k))"
  by (auto simp: dict_keys_def dict_del_def)

lemma dict_set_keys: "k \<in> set (dict_keys (dict_set kvs k v))"
  by (induction kvs) (force simp: dict_keys_def)+

lemma dict_content_agree:
  assumes "host w' = host w" "\<forall>a\<in>addrs sel (host w). heap w' a = heap w a"
  shows "dict_content sel w' = dict_content sel w"
  using view_content_agree [of sel "host w" "heap w'" "heap w"] assms
  by (simp add: dict_content_def Let_def)

lemma add_keys_set: "set (add_keys d ks) = set d \<union> set ks"
  by (induction ks arbitrary: d) auto

lemma chainmap_keys_fold: "set (foldl (\<lambda>d m. add_keys d (map fst m)) d0 ms) = set d0 \<union> (\<Union>m\<in>set ms. fst ` set m)"
  by (induction ms arbitrary: d0) (auto simp: add_keys_set)

lemma chainmap_keys_set: "set (chainmap_keys ms) = (\<Union>m\<in>set ms. fst ` set m)"
  by (simp add: chainmap_keys_def chainmap_keys_fold)

lemma chainmap_get_None: "chainmap_get ms k = None \<longleftrightarrow> k \<notin> (\<Union>m\<in>set ms. fst ` set m)"
  by (induction ms) (auto simp: in_keys_iff split: option.splits)

lemma chainmap_dict_keys: "fst ` set (chainmap_dict ms) = (\<Union>m\<in>set ms. fst ` set m)"
proof -
  have "fst ` set (chainmap_dict ms) = {k \<in> set (chainmap_keys ms). chainmap_get ms k \<noteq> None}"
    by (force simp: chainmap_dict_def List.map_filter_def)
  also have "\<dots> = (\<Union>m\<in>set ms. fst ` set m)"
    using chainmap_get_None [of ms] by (auto simp: chainmap_keys_set)
  finally show ?thesis .
qed

lemma merge_keys: "fst ` set (fst (merge_plugin_value val pv h)) = fst ` set val \<union> fst ` set pv"
proof (induction pv arbitrary: val h)
  case Nil
  then show ?case by simp
next
  case (Cons p pv)
  obtain k a where p: "p = (k, a)" by (cases p)
  show ?case
  proof (cases "map_of val k")
    case None
    then show ?thesis using Cons.IH [of "val @ [(k, a)]" h] p by auto
  next
    case (Some b)
    define H where "H = h(b := h b @ h a)"
    have "k \<in> fst ` set val" using Some by (simp add: in_keys_iff)
    then show ?thesis
      unfolding p merge_step_old [OF Some H_def]
      using Cons.IH [of val H] by auto
  qed
qed

lemma plugin_views_fst:
  "fst (plugin_views sel ps h) = map (\<lambda>p. fst (dict_view sel (snd p) h0)) ps"
proof (induction ps arbitrary: h)
  case Nil
  then show ?case by simp
next
  case (Cons p ps)
  obtain m h1 where dv: "dict_view sel (snd p) h = (m, h1)" by (cases "dict_view sel (snd p) h")
  obtain ms h2 where pv: "plugin_views sel ps h1 = (ms, h2)" by (cases "plugin_views sel ps h1")
  have "m = fst (dict_view sel (snd p) h0)"
    using views_fst_heap(1) [of sel "snd p" h h0] dv by simp
  moreover have "ms = map (\<lambda>p. fst (dict_view sel (snd p) h0)) ps"
    using Cons.IH [of h1] pv by simp
  ultimately show ?case using dv pv by simp
qed

text \<open>
  The keys of a merged dictionary view are the factory's own keys together with the keys
  of the merged views of its plugins.
\<close>

theorem dict_view_keys:
  "set (dict_keys (fst (dict_view sel f h)))
     = set (dict_keys (sel (own f)))
       \<union> (\<Union>p\<in>set (plugins f). set (dict_keys (fst (dict_view sel (snd p) h))))"
proof (cases f)
  case (Factory i c ps)
  obtain ms h1 where pv: "plugin_views sel ps h = (ms, h1)" by (cases "plugin_views sel ps h")
  have ms: "ms = map (\<lambda>p. fst (dict_view sel (snd p) h)) ps"
    using plugin_views_fst [of sel ps h h] pv by simp
  have "fst ` set (fst (dict_view sel f h)) = fst ` set (sel c) \<union> (\<Union>m\<in>set ms. fst ` set m)"
    using Factory pv by (simp add: merge_keys chainmap_dict_keys)
  then show ?thesis
    using Factory ms by (simp add: dict_keys_def)
qed

lemma in_place_absent: "i \<notin> idents f \<Longrightarrow> in_place i upd f = f"
proof (induction i upd f rule: in_place.induct)
  case (1 i upd j c ps)
  then have "map (\<lambda>p. (fst p, in_place i upd (snd p))) ps = ps"
    by (intro map_idI) auto
  with 1 show ?case by simp
qed

text \<open>
  C5 (amended). A plugin whose identifier is not installed and is not \<^verbatim>\<open>__factory__\<close>, and
  whose object the host does not reach already (through a combined factory or a plugin of
  a plugin), is installed and then uninstalled at once, both calls completing, with hooks
  that leave the host and the list objects of its handler dictionaries alone (the
  uninstall hook may change the plugin it belongs to). Then the host is what it was, and
  so is every merged view: prefix keywords, message handlers, hooks, middleware, group
  configuration, and the content of the event and exception handler dictionaries.
\<close>

theorem install_then_uninstall_restores_views:
  assumes fresh: "plugin_id inst \<notin> set (dict_keys (plugins (host w)))"
    and notres: "plugin_id inst \<noteq> ''__factory__''"
    and unshared: "ident (base inst) \<notin> idents (host w)"
    and inst: "install_plugin ih inst w = Returned w1"
    and uninst: "uninstall_plugin uh (plugin_id inst) w1 = Returned w2"
    and ih_frame: "\<forall>r. ih (inst\<lparr> base := set_prefix_keywords (ident (base inst))
                             (Inr (prefix_keywords (host w))) (base inst) \<rparr>) w
          = Returned r \<longrightarrow>
        host (snd r) = host w \<and> (\<forall>a\<in>host_addrs (host w). heap (snd r) a = heap w a)"
    and uh_frame: "\<forall>w'. uh (plugin_id inst) w1 = Returned w' \<longrightarrow>
        ident (host w') = ident (host w1)
        \<and> own (host w') = own (host w1)
        \<and> dict_del (plugins (host w')) (plugin_id inst) = dict_del (plugins (host w1)) (plugin_id inst)
        \<and> (\<forall>a\<in>host_addrs (host w). heap w' a = heap w1 a)"
  shows "host w2 = host w
     \<and> prefix_keywords (host w2) = prefix_keywords (host w)
     \<and> message_handlers (host w2) = message_handlers (host w)
     \<and> before_reply_handlers (host w2) = before_reply_handlers (host w)
     \<and> after_reply_handlers (host w2) = after_reply_handlers (host w)
     \<and> message_handler_middleware (host w2) = message_handler_middleware (host w)
     \<and> group_config iadd (host w2) = group_config iadd (host w)
     \<and> dict_content own_event_handlers w2 = dict_content own_event_handlers w
     \<and> dict_content own_exception_handlers w2 = dict_content own_exception_handlers w"
proof -
  let ?pid = "plugin_id inst"
  let ?arg = "inst\<lparr> base := set_prefix_keywords (ident (base inst))
                             (Inr (prefix_keywords (host w))) (base inst) \<rparr>"
  have same: "w\<lparr> host := set_prefix_keywords (ident (base inst)) (Inr (prefix_keywords (host w))) (host w) \<rparr> = w"
    using in_place_absent [OF unshared] by (simp add: set_prefix_keywords_def)
  from inst fresh obtain r where r: "ih ?arg w = Returned r"
    and w1: "w1 = (snd r)\<lparr> host := Factory (ident (host (snd r))) (own (host (snd r)))
                                  (dict_set (plugins (host (snd r))) ?pid (base (fst r))) \<rparr>"
    by (auto simp: install_plugin_def Let_def same split: outcome.splits)
  from ih_frame r have hr: "host (snd r) = host w"
    and ar: "\<forall>a\<in>host_addrs (host w). heap (snd r) a = heap w a"
    by auto
  have own1: "own (host w1) = own (host w)" and id1: "ident (host w1) = ident (host w)"
    using w1 hr by simp_all
  have pl1: "plugins (host w1) = plugins (host w) @ [(?pid, base (fst r))]"
    using w1 hr dict_set_fresh [OF fresh] by simp
  have hp1: "heap w1 = heap (snd r)" using w1 by simp
  from uninst obtain w' where u: "uh ?pid w1 = Returned w'"
    and w2: "w2 = w'\<lparr> host := Factory (ident (host w')) (own (host w'))
                            (dict_del (plugins (host w')) ?pid) \<rparr>"
    by (auto simp: uninstall_plugin_def split: outcome.splits if_splits)
  from uh_frame u have iw: "ident (host w') = ident (host w1)"
    and ow: "own (host w') = own (host w1)"
    and dl: "dict_del (plugins (host w')) ?pid = dict_del (plugins (host w1)) ?pid"
    and au: "\<forall>a\<in>host_addrs (host w). heap w' a = heap w1 a"
    by auto
  have "host w2 = Factory (ident (host w)) (own (host w)) (plugins (host w))"
    using w2 iw id1 ow own1 dl pl1 dict_del_fresh [OF fresh] by simp
  then have hw: "host w2 = host w" by simp
  have hp: "\<forall>a\<in>host_addrs (host w). heap w2 a = heap w a"
    using w2 au hp1 ar by simp
  have ev: "dict_content own_event_handlers w2 = dict_content own_event_handlers w"
    using hp by (intro dict_content_agree [OF hw]) (simp add: host_addrs_def)
  have ex: "dict_content own_exception_handlers w2 = dict_content own_exception_handlers w"
    using hp by (intro dict_content_agree [OF hw]) (simp add: host_addrs_def)
  from hw ev ex show ?thesis by simp
qed

text \<open>C5 on a host and a plugin \<^verbatim>\<open>p\<close> with the hooks of \<^verbatim>\<open>PluginInstance\<close>.\<close>

theorem install_then_uninstall_restores_views_witness:
  "install_plugin install_default
      \<lparr> plugin_id = ''p'',
        base = Factory 1 ((own (factory_init 1))\<lparr> own_message_handlers := [2::nat],
                 own_event_handlers := [(''e'', 1)] \<rparr>) [] \<rparr>
      \<lparr> host = Factory 0 ((own (factory_init 0 :: (nat, unit) factory))\<lparr> own_prefix_keywords := [''!''],
                 own_message_handlers := [1], own_event_handlers := [(''e'', 0)] \<rparr>) [],
        heap = (\<lambda>a. [])(0 := [5], 1 := [6]) \<rparr>
     = Returned
      \<lparr> host = Factory 0 ((own (factory_init 0))\<lparr> own_prefix_keywords := [''!''],
                 own_message_handlers := [1], own_event_handlers := [(''e'', 0)] \<rparr>)
           [(''p'', Factory 1 ((own (factory_init 1))\<lparr> own_prefix_keywords := [''!''],
                 own_message_handlers := [2], own_event_handlers := [(''e'', 1)] \<rparr>) [])],
        heap = (\<lambda>a. [])(0 := [5], 1 := [6]) \<rparr>
   \<and> prefix_keywords (host (state_of (uninstall_plugin uninstall_default ''p''
      \<lparr> host = Factory 0 ((own (factory_init 0 :: (nat, unit) factory))\<lparr> own_prefix_keywords := [''!''],
                 own_message_handlers := [1], own_event_handlers := [(''e'', 0)] \<rparr>)
           [(''p'', Factory 1 ((own (factory_init 1))\<lparr> own_prefix_keywords := [''!''],
                 own_message_handlers := [2], own_event_handlers := [(''e'', 1)] \<rparr>) [])],
        heap = (\<lambda>a. [])(0 := [5], 1 := [6::nat]) \<rparr>))) = [''!'']
   \<and> message_handlers (host (state_of (uninstall_plugin uninstall_default ''p''
      \<lparr> host = Factory 0 ((own (factory_init 0 :: (nat, unit) factory))\<lparr> own_prefix_keywords := [''!''],
                 own_message_handlers := [1], own_event_handlers := [(''e'', 0)] \<rparr>)
           [(''p'', Factory 1 ((own (factory_init 1))\<lparr> own_prefix_keywords := [''!''],
                 own_message_handlers := [2], own_event_handlers := [(''e'', 1)] \<rparr>) [])],
        heap = (\<lambda>a. [])(0 := [5], 1 := [6::nat]) \<rparr>))) = [1]
   \<and> dict_content own_event_handlers (state_of (uninstall_plugin uninstall_default ''p''
      \<lparr> host = Factory 0 ((own (factory_init 0 :: (nat, unit) factory))\<lparr> own_prefix_keywords := [''!''],
                 own_message_handlers := [1], own_event_handlers := [(''e'', 0)] \<rparr>)
           [(''p'', Factory 1 ((own (factory_init 1))\<lparr> own_prefix_keywords := [''!''],
                 own_message_handlers := [2], own_event_handlers := [(''e'', 1)] \<rparr>) [])],
        heap = (\<lambda>a. [])(0 := [5], 1 := [6::nat]) \<rparr>)) = [(''e'', [5])]"
proof -
  let ?inst = "\<lparr> plugin_id = ''p'',
        base = Factory 1 ((own (factory_init 1 :: (nat, unit) factory))\<lparr> own_message_handlers := [2::nat],
                 own_event_handlers := [(''e'', 1)] \<rparr>) [] \<rparr>"
  let ?w = "\<lparr> host = Factory 0 ((own (factory_init 0 :: (nat, unit) factory))\<lparr> own_prefix_keywords := [''!''],
                 own_message_handlers := [1], own_event_handlers := [(''e'', 0)] \<rparr>) [],
        heap = (\<lambda>a. [])(0 := [5], 1 := [6::nat]) \<rparr>"
  let ?w1 = "\<lparr> host = Factory 0 ((own (factory_init 0 :: (nat, unit) factory))\<lparr> own_prefix_keywords := [''!''],
                 own_message_handlers := [1], own_event_handlers := [(''e'', 0)] \<rparr>)
           [(''p'', Factory 1 ((own (factory_init 1))\<lparr> own_prefix_keywords := [''!''],
                 own_message_handlers := [2], own_event_handlers := [(''e'', 1)] \<rparr>) [])],
        heap = (\<lambda>a. [])(0 := [5], 1 := [6::nat]) \<rparr>"
  have fresh: "plugin_id ?inst \<notin> set (dict_keys (plugins (host ?w)))"
    by (simp add: dict_keys_def)
  have notres: "plugin_id ?inst \<noteq> ''__factory__''" by simp
  have unshared: "ident (base ?inst) \<notin> idents (host ?w)" by simp
  have i: "install_plugin install_default ?inst ?w = Returned ?w1"
    by (simp add: install_plugin_def install_default_def dict_keys_def prefix_keywords_def
          set_prefix_keywords_def add_prefix_keywords_def factory_init_def)
  have u: "uninstall_plugin uninstall_default (plugin_id ?inst) ?w1 = Returned ?w"
    by (simp add: uninstall_plugin_def uninstall_default_def dict_keys_def dict_del_def)
  have f1: "\<forall>r. install_default (?inst\<lparr> base := set_prefix_keywords (ident (base ?inst))
                             (Inr (prefix_keywords (host ?w))) (base ?inst) \<rparr>) ?w
          = Returned r \<longrightarrow>
        host (snd r) = host ?w \<and> (\<forall>a\<in>host_addrs (host ?w). heap (snd r) a = heap ?w a)"
    by (auto simp: install_default_def)
  have f2: "\<forall>w'. uninstall_default (plugin_id ?inst) ?w1 = Returned w' \<longrightarrow>
        ident (host w') = ident (host ?w1)
        \<and> own (host w') = own (host ?w1)
        \<and> dict_del (plugins (host w')) (plugin_id ?inst) = dict_del (plugins (host ?w1)) (plugin_id ?inst)
        \<and> (\<forall>a\<in>host_addrs (host ?w). heap w' a = heap ?w1 a)"
    by (auto simp: uninstall_default_def)
  have k: "prefix_keywords (host ?w) = [''!'']"
    by (simp add: prefix_keywords_def)
  have m: "message_handlers (host ?w) = [1]"
    by (simp add: message_handlers_def)
  have d: "dict_content own_event_handlers ?w = [(''e'', [5])]"
    by (simp add: dict_content_def Let_def chainmap_dict_def chainmap_keys_def view_content_def)
  note main = install_then_uninstall_restores_views [OF fresh notres unshared i u f1 f2]
  have "prefix_keywords (host (state_of (uninstall_plugin uninstall_default ''p'' ?w1))) = [''!'']"
    using main [THEN conjunct2, THEN conjunct1] u k by simp
  moreover have "message_handlers (host (state_of (uninstall_plugin uninstall_default ''p'' ?w1))) = [1]"
    using main [THEN conjunct2, THEN conjunct2, THEN conjunct1] u m by simp
  moreover have "dict_content own_event_handlers (state_of (uninstall_plugin uninstall_default ''p'' ?w1))
      = [(''e'', [5])]"
    using main [THEN conjunct2, THEN conjunct2, THEN conjunct2, THEN conjunct2, THEN conjunct2,
            THEN conjunct2, THEN conjunct2, THEN conjunct1] u d by simp
  ultimately show ?thesis using i by (intro conjI)
qed

text \<open>
  C5 as stated fails, in four ways. A plugin whose identifier is \<^verbatim>\<open>__factory__\<close> is
  installed, \<^verbatim>\<open>uninstall_plugin\<close> then refuses the reserved identifier, and the plugin's
  message handler stays in the merged view. A plugin object that the host reaches already
  through its combined factory gets the host's prefix keyword \<^verbatim>\<open>!\<close> appended in place by
  the install, and after the uninstall the host's merged prefix keywords are \<^verbatim>\<open>!\<close>, \<^verbatim>\<open>!\<close>
  where they were \<^verbatim>\<open>!\<close>. An uninstall hook that raises leaves the plugin installed. And an
  install hook that registers handler 9 on the host leaves it there after the uninstall.
\<close>

theorem install_uninstall_counterexample:
  "install_plugin install_default
      \<lparr> plugin_id = ''__factory__'',
        base = Factory 1 ((own (factory_init 1))\<lparr> own_message_handlers := [2::nat] \<rparr>) [] \<rparr>
      \<lparr> host = (factory_init 0 :: (nat, unit) factory), heap = (\<lambda>a. []) \<rparr>
     = Returned
      \<lparr> host = Factory 0 (own (factory_init 0))
           [(''__factory__'', Factory 1 ((own (factory_init 1))\<lparr> own_message_handlers := [2] \<rparr>) [])],
        heap = (\<lambda>a. []) \<rparr>
   \<and> uninstall_plugin uninstall_default ''__factory__''
      \<lparr> host = Factory 0 (own (factory_init 0 :: (nat, unit) factory))
           [(''__factory__'', Factory 1 ((own (factory_init 1))\<lparr> own_message_handlers := [2::nat] \<rparr>) [])],
        heap = (\<lambda>a. []) \<rparr>
     = Raised AssertionError
      \<lparr> host = Factory 0 (own (factory_init 0))
           [(''__factory__'', Factory 1 ((own (factory_init 1))\<lparr> own_message_handlers := [2] \<rparr>) [])],
        heap = (\<lambda>a. []) \<rparr>
   \<and> message_handlers (factory_init 0 :: (nat, unit) factory) = []
   \<and> message_handlers (Factory 0 (own (factory_init 0 :: (nat, unit) factory))
           [(''__factory__'', Factory 1 ((own (factory_init 1))\<lparr> own_message_handlers := [2::nat] \<rparr>) [])])
     = [2]
   \<and> prefix_keywords
      (Factory 0 ((own (factory_init 0 :: (nat, unit) factory))\<lparr> own_prefix_keywords := [''!''] \<rparr>)
         [(''__factory__'', Factory 1 (own (factory_init 1)) [(''p'', factory_init 2)])]) = [''!'']
   \<and> install_plugin install_default \<lparr> plugin_id = ''p'', base = factory_init 2 \<rparr>
      \<lparr> host = Factory 0 ((own (factory_init 0 :: (nat, unit) factory))\<lparr> own_prefix_keywords := [''!''] \<rparr>)
           [(''__factory__'', Factory 1 (own (factory_init 1)) [(''p'', factory_init 2)])],
        heap = (\<lambda>a. []) :: nat heap \<rparr>
     = Returned
      \<lparr> host = Factory 0 ((own (factory_init 0))\<lparr> own_prefix_keywords := [''!''] \<rparr>)
           [(''__factory__'', Factory 1 (own (factory_init 1))
               [(''p'', Factory 2 ((own (factory_init 2))\<lparr> own_prefix_keywords := [''!''] \<rparr>) [])]),
            (''p'', Factory 2 ((own (factory_init 2))\<lparr> own_prefix_keywords := [''!''] \<rparr>) [])],
        heap = (\<lambda>a. []) \<rparr>
   \<and> uninstall_plugin uninstall_default ''p''
      \<lparr> host = Factory 0 ((own (factory_init 0 :: (nat, unit) factory))\<lparr> own_prefix_keywords := [''!''] \<rparr>)
           [(''__factory__'', Factory 1 (own (factory_init 1))
               [(''p'', Factory 2 ((own (factory_init 2))\<lparr> own_prefix_keywords := [''!''] \<rparr>) [])]),
            (''p'', Factory 2 ((own (factory_init 2))\<lparr> own_prefix_keywords := [''!''] \<rparr>) [])],
        heap = (\<lambda>a. []) :: nat heap \<rparr>
     = Returned
      \<lparr> host = Factory 0 ((own (factory_init 0))\<lparr> own_prefix_keywords := [''!''] \<rparr>)
           [(''__factory__'', Factory 1 (own (factory_init 1))
               [(''p'', Factory 2 ((own (factory_init 2))\<lparr> own_prefix_keywords := [''!''] \<rparr>) [])])],
        heap = (\<lambda>a. []) \<rparr>
   \<and> prefix_keywords
      (Factory 0 ((own (factory_init 0 :: (nat, unit) factory))\<lparr> own_prefix_keywords := [''!''] \<rparr>)
         [(''__factory__'', Factory 1 (own (factory_init 1))
             [(''p'', Factory 2 ((own (factory_init 2))\<lparr> own_prefix_keywords := [''!''] \<rparr>) [])])])
     = [''!'', ''!'']
   \<and> uninstall_plugin (\<lambda>pid w. Raised (OtherError ''uninstall failed'') w) ''p''
      \<lparr> host = Factory 0 (own (factory_init 0 :: (nat, unit) factory))
           [(''p'', Factory 1 ((own (factory_init 1))\<lparr> own_message_handlers := [2::nat] \<rparr>) [])],
        heap = (\<lambda>a. []) \<rparr>
     = Raised (OtherError ''uninstall failed'')
      \<lparr> host = Factory 0 (own (factory_init 0))
           [(''p'', Factory 1 ((own (factory_init 1))\<lparr> own_message_handlers := [2] \<rparr>) [])],
        heap = (\<lambda>a. []) \<rparr>
   \<and> message_handlers (host (state_of (uninstall_plugin uninstall_default ''p'' (state_of
      (install_plugin
         (\<lambda>inst w. Returned (inst, w\<lparr> host := in_place (ident (host w))
             (\<lambda>c. c\<lparr> own_message_handlers := own_message_handlers c @ [9] \<rparr>) (host w) \<rparr>))
         \<lparr> plugin_id = ''p'', base = factory_init 1 \<rparr>
         \<lparr> host = (factory_init 0 :: (nat, unit) factory), heap = (\<lambda>a. []) \<rparr>))))) = [9]"
  by (simp add: install_plugin_def install_default_def dict_keys_def prefix_keywords_def
        set_prefix_keywords_def add_prefix_keywords_def factory_init_def uninstall_plugin_def
        uninstall_default_def message_handlers_def dict_del_def Let_def)

text \<open>
  The contract of the two calls. \<^verbatim>\<open>install_plugin\<close> on an identifier already installed
  raises \<^verbatim>\<open>AssertionError\<close> and leaves host and heap as they were, whatever the install hook
  is (it is not run). Otherwise the hook runs on the plugin extended in place by the
  host's merged prefix keywords, in a world whose host does not hold the plugin under the
  identifier; when the hook completes the plugin is stored under its identifier, and when
  it raises the plugin is not stored. \<^verbatim>\<open>uninstall_plugin\<close> on \<^verbatim>\<open>__factory__\<close> or on an
  identifier not installed raises \<^verbatim>\<open>AssertionError\<close> and leaves the world as it was;
  otherwise the uninstall hook runs, then the entry is deleted, and the merged list views
  are built from the remaining plugins.
\<close>

theorem plugin_install_uninstall_contract:
  "(plugin_id inst \<in> set (dict_keys (plugins (host w))) \<longrightarrow>
      install_plugin ih inst w = Raised AssertionError w)
   \<and> (plugin_id inst \<notin> set (dict_keys (plugins (host w)))
       \<and> kw = Inr (prefix_keywords (host w))
       \<and> ih (inst\<lparr> base := set_prefix_keywords (ident (base inst)) kw (base inst) \<rparr>)
             (w\<lparr> host := set_prefix_keywords (ident (base inst)) kw (host w) \<rparr>)
           = Returned (inst1, w1) \<longrightarrow>
      install_plugin ih inst w
        = Returned (w1\<lparr> host := Factory (ident (host w1)) (own (host w1))
                            (dict_set (plugins (host w1)) (plugin_id inst) (base inst1)) \<rparr>)
      \<and> own_prefix_keywords (own (set_prefix_keywords (ident (base inst)) kw (base inst)))
          = own_prefix_keywords (own (base inst)) @ prefix_keywords (host w)
      \<and> plugin_id inst \<in> set (dict_keys (dict_set (plugins (host w1)) (plugin_id inst) (base inst1))))
   \<and> (plugin_id inst \<notin> set (dict_keys (plugins (host w)))
       \<and> kw = Inr (prefix_keywords (host w))
       \<and> ih (inst\<lparr> base := set_prefix_keywords (ident (base inst)) kw (base inst) \<rparr>)
             (w\<lparr> host := set_prefix_keywords (ident (base inst)) kw (host w) \<rparr>)
           = Raised e (inst1, w1) \<longrightarrow>
      install_plugin ih inst w = Raised e w1)
   \<and> (pid = ''__factory__'' \<or> pid \<notin> set (dict_keys (plugins (host w))) \<longrightarrow>
      uninstall_plugin uh pid w = Raised AssertionError w)
   \<and> (pid \<noteq> ''__factory__'' \<and> pid \<in> set (dict_keys (plugins (host w)))
       \<and> uh pid w = Returned w2 \<and> pid \<in> set (dict_keys (plugins (host w2))) \<longrightarrow>
      uninstall_plugin uh pid w
        = Returned (w2\<lparr> host := Factory (ident (host w2)) (own (host w2))
                            (dict_del (plugins (host w2)) pid) \<rparr>)
      \<and> pid \<notin> set (dict_keys (dict_del (plugins (host w2)) pid))
      \<and> (\<forall>sel :: ('h, 'g) collections \<Rightarrow> 'a list.
           list_view sel (Factory (ident (host w2)) (own (host w2)) (dict_del (plugins (host w2)) pid))
           = sel (own (host w2)) @ concat (map (\<lambda>p. list_view sel (snd p))
               (filter (\<lambda>p. fst p \<noteq> pid) (plugins (host w2))))))"
proof -
  have del: "pid \<notin> set (dict_keys (dict_del (plugins (host w2)) pid))"
    by (rule dict_del_keys)
  have lv: "list_view sel (Factory (ident (host w2)) (own (host w2)) (dict_del (plugins (host w2)) pid))
           = sel (own (host w2)) @ concat (map (\<lambda>p. list_view sel (snd p))
               (filter (\<lambda>p. fst p \<noteq> pid) (plugins (host w2))))"
    for sel :: "('h, 'g) collections \<Rightarrow> 'a list"
    by (simp add: dict_del_def)
  have pk: "own_prefix_keywords (own (set_prefix_keywords (ident (base inst))
                (Inr (prefix_keywords (host w))) (base inst)))
          = own_prefix_keywords (own (base inst)) @ prefix_keywords (host w)"
    by (cases "base inst") (simp add: set_prefix_keywords_def add_prefix_keywords_def)
  show ?thesis
    using del lv pk
    by (auto simp: install_plugin_def uninstall_plugin_def Let_def
          dict_set_keys simp del: list_view.simps)
qed

text \<open>
  The contract on a duplicate, a new plugin, the reserved identifier and an installed
  plugin.
\<close>

theorem plugin_install_uninstall_contract_witness:
  "install_plugin install_default
      \<lparr> plugin_id = ''p'', base = Factory 2 ((own (factory_init 2))\<lparr> own_message_handlers := [3::nat] \<rparr>) [] \<rparr>
      \<lparr> host = Factory 0 ((own (factory_init 0 :: (nat, unit) factory))\<lparr> own_prefix_keywords := [''!''] \<rparr>)
           [(''p'', factory_init 1)],
        heap = (\<lambda>a. []) \<rparr>
     = Raised AssertionError
      \<lparr> host = Factory 0 ((own (factory_init 0))\<lparr> own_prefix_keywords := [''!''] \<rparr>)
           [(''p'', factory_init 1)],
        heap = (\<lambda>a. []) \<rparr>
   \<and> install_plugin install_default
      \<lparr> plugin_id = ''q'', base = Factory 2 ((own (factory_init 2))\<lparr> own_message_handlers := [3::nat] \<rparr>) [] \<rparr>
      \<lparr> host = Factory 0 ((own (factory_init 0 :: (nat, unit) factory))\<lparr> own_prefix_keywords := [''!''] \<rparr>)
           [(''p'', factory_init 1)],
        heap = (\<lambda>a. []) \<rparr>
     = Returned
      \<lparr> host = Factory 0 ((own (factory_init 0))\<lparr> own_prefix_keywords := [''!''] \<rparr>)
           [(''p'', factory_init 1),
            (''q'', Factory 2 ((own (factory_init 2))\<lparr> own_message_handlers := [3],
                      own_prefix_keywords := [''!''] \<rparr>) [])],
        heap = (\<lambda>a. []) \<rparr>
   \<and> uninstall_plugin uninstall_default ''__factory__''
      \<lparr> host = Factory 0 (own (factory_init 0 :: (nat, unit) factory)) [(''__factory__'', factory_init 1)],
        heap = (\<lambda>a. []) :: nat heap \<rparr>
     = Raised AssertionError
      \<lparr> host = Factory 0 (own (factory_init 0)) [(''__factory__'', factory_init 1)], heap = (\<lambda>a. []) \<rparr>
   \<and> uninstall_plugin uninstall_default ''p''
      \<lparr> host = Factory 0 (own (factory_init 0 :: (nat, unit) factory)) [(''p'', factory_init 1)],
        heap = (\<lambda>a. []) :: nat heap \<rparr>
     = Returned \<lparr> host = Factory 0 (own (factory_init 0)) [], heap = (\<lambda>a. []) \<rparr>"
proof -
  let ?h = "Factory 0 ((own (factory_init 0 :: (nat, unit) factory))\<lparr> own_prefix_keywords := [''!''] \<rparr>)
           [(''p'', factory_init 1)]"
  let ?w = "\<lparr> host = ?h, heap = (\<lambda>a. []) :: nat heap \<rparr>"
  let ?b = "Factory 2 ((own (factory_init 2 :: (nat, unit) factory))\<lparr> own_message_handlers := [3::nat] \<rparr>) []"
  let ?wf = "\<lparr> host = Factory 0 (own (factory_init 0 :: (nat, unit) factory)) [(''__factory__'', factory_init 1)],
        heap = (\<lambda>a. []) :: nat heap \<rparr>"
  let ?wp = "\<lparr> host = Factory 0 (own (factory_init 0 :: (nat, unit) factory)) [(''p'', factory_init 1)],
        heap = (\<lambda>a. []) :: nat heap \<rparr>"
  let ?inq = "\<lparr> plugin_id = ''q'', base = ?b \<rparr>"
  let ?kw = "Inr (prefix_keywords (host ?w)) :: string + string list"
  have a: "plugin_id \<lparr> plugin_id = ''p'', base = ?b \<rparr> \<in> set (dict_keys (plugins (host ?w)))"
    by (simp add: dict_keys_def)
  have b: "plugin_id ?inq \<notin> set (dict_keys (plugins (host ?w)))
       \<and> ?kw = Inr (prefix_keywords (host ?w))
       \<and> install_default (?inq\<lparr> base := set_prefix_keywords (ident (base ?inq)) ?kw (base ?inq) \<rparr>)
             (?w\<lparr> host := set_prefix_keywords (ident (base ?inq)) ?kw (host ?w) \<rparr>)
           = Returned (?inq\<lparr> base := set_prefix_keywords (ident (base ?inq)) ?kw (base ?inq) \<rparr>,
                       ?w\<lparr> host := set_prefix_keywords (ident (base ?inq)) ?kw (host ?w) \<rparr>)"
    by (simp add: dict_keys_def install_default_def)
  have c: "''__factory__'' = ''__factory__'' \<or> ''__factory__'' \<notin> set (dict_keys (plugins (host ?wf)))"
    by simp
  have d: "''p'' \<noteq> ''__factory__'' \<and> ''p'' \<in> set (dict_keys (plugins (host ?wp)))
       \<and> uninstall_default ''p'' ?wp = Returned ?wp \<and> ''p'' \<in> set (dict_keys (plugins (host ?wp)))"
    by (simp add: dict_keys_def uninstall_default_def)
  from plugin_install_uninstall_contract [where inst = "\<lparr> plugin_id = ''p'', base = ?b \<rparr>" and w = ?w
         and ih = install_default, THEN conjunct1, THEN mp, OF a]
       plugin_install_uninstall_contract [where inst = ?inq and w = ?w and ih = install_default,
         THEN conjunct2, THEN conjunct1, THEN mp, OF b, THEN conjunct1]
       plugin_install_uninstall_contract [where pid = "''__factory__''" and w = ?wf
         and uh = uninstall_default,
         THEN conjunct2, THEN conjunct2, THEN conjunct2, THEN conjunct1, THEN mp, OF c]
       plugin_install_uninstall_contract [where pid = "''p''" and w = ?wp and uh = uninstall_default,
         THEN conjunct2, THEN conjunct2, THEN conjunct2, THEN conjunct2, THEN mp, OF d, THEN conjunct1]
  show ?thesis
    by (simp add: prefix_keywords_def set_prefix_keywords_def add_prefix_keywords_def
          factory_init_def dict_del_def)
qed

end
